theory Spec2Isabelle
  imports Main "HOL-Library.Word" "HOL-Library.Sublist"
begin

unbundle bit_operations_syntax

section \<open>Bytes and text\<close>

text \<open>
  Go's \<^verbatim>\<open>string\<close> and a \<^verbatim>\<open>[]byte\<close> that holds text are both sequences of bytes;
  they are modelled as \<^typ>\<open>string\<close> (a list of 8-bit characters). A byte on which the code
  does arithmetic (\<^verbatim>\<open>v>>4\<close>, \<^verbatim>\<open>v&0x0F\<close>) is an \<^typ>\<open>8 word\<close>.
\<close>

type_synonym byte = "8 word"

subsection \<open>bytes.go\<close>

definition hextable :: string where
  "hextable = ''0123456789ABCDEF''"

text \<open>
  \<^verbatim>\<open>hexEncode\<close>: the loop over \<^verbatim>\<open>src\<close> is a left fold whose accumulator is \<^verbatim>\<open>dst\<close>.
  Both indices into \<^verbatim>\<open>hextable\<close> are below 16, so the index expression never panics.
\<close>

definition hexEncode :: "string \<Rightarrow> byte list \<Rightarrow> string" where
  "hexEncode dst src =
     foldl (\<lambda>dst v. (dst @ [hextable ! unat (drop_bit 4 v)]) @ [hextable ! unat (v AND 0x0F)])
       (dst @ ''0x'') src"

subsection \<open>Decoding a hexadecimal rendering\<close>

text \<open>
  The decoder is not part of the repository; it is the inverse the specification's round-trip
  property speaks of: the text must start with \<^verbatim>\<open>0x\<close>, and every following pair of
  hexadecimal digits is one byte, high digit first.
\<close>

definition fromHexChar :: "char \<Rightarrow> nat option" where
  "fromHexChar c =
     (let n = (of_char c :: nat) in
      if 48 \<le> n \<and> n \<le> 57 then Some (n - 48)
      else if 65 \<le> n \<and> n \<le> 70 then Some (n - 65 + 10)
      else if 97 \<le> n \<and> n \<le> 102 then Some (n - 97 + 10)
      else None)"

fun hexPairs :: "string \<Rightarrow> byte list option" where
  "hexPairs [] = Some []"
| "hexPairs [c] = None"
| "hexPairs (a # b # cs) =
     (case (fromHexChar a, fromHexChar b, hexPairs cs) of
        (Some h, Some l, Some bs) \<Rightarrow> Some (of_nat (h * 16 + l) # bs)
      | _ \<Rightarrow> None)"

definition hexDecode :: "string \<Rightarrow> byte list option" where
  "hexDecode s = (if take 2 s = ''0x'' then hexPairs (drop 2 s) else None)"

text \<open>The rendering of one byte in the specification's words: two digits, high nibble first.\<close>

definition hexDigits :: "byte \<Rightarrow> string" where
  "hexDigits v = [hextable ! (unat v div 16), hextable ! (unat v mod 16)]"

section \<open>Library functions the encoder calls\<close>

subsection \<open>strconv: base-10 rendering of integers\<close>

definition digit :: "nat \<Rightarrow> char" where
  "digit d = ''0123456789'' ! (d mod 10)"

fun FormatUint :: "nat \<Rightarrow> string" where
  "FormatUint n = (if n < 10 then [digit n] else FormatUint (n div 10) @ [digit (n mod 10)])"

declare FormatUint.simps [simp del]

definition FormatInt :: "int \<Rightarrow> string" where
  "FormatInt i = (if i < 0 then ''-'' @ FormatUint (nat (- i)) else FormatUint (nat i))"

text \<open>\<^verbatim>\<open>strconv.AppendInt(dst, val, 10)\<close> and \<^verbatim>\<open>strconv.AppendUint(dst, val, 10)\<close> on 64-bit values.\<close>

definition AppendInt :: "string \<Rightarrow> 64 word \<Rightarrow> string" where
  "AppendInt dst val = dst @ FormatInt (sint val)"

definition AppendUint :: "string \<Rightarrow> 64 word \<Rightarrow> string" where
  "AppendUint dst val = dst @ FormatUint (unat val)"

subsection \<open>Floating-point values\<close>

text \<open>
  A floating-point value is one of the three special values or a finite value, given by its sign,
  significand and binary exponent. \<^verbatim>\<open>math.IsNaN\<close> and \<^verbatim>\<open>math.IsInf\<close> test the class.
  The conversion \<^verbatim>\<open>float64(val)\<close> of a 32-bit value is exact, so both widths share the type.
  The text of a finite value is computed by \<^verbatim>\<open>strconv.AppendFloat(dst, val, 'f', -1, bitSize)\<close>,
  a library function: the encoder's operations take it as the parameter \<open>FormatFloat\<close>
  (value and bit size to text), and \<^verbatim>\<open>AppendFloat\<close> appends that text.
\<close>

datatype float = NaN | PosInf | NegInf | Finite bool nat int

definition IsNaN :: "float \<Rightarrow> bool" where
  "IsNaN f = (f = NaN)"

definition IsInf :: "float \<Rightarrow> int \<Rightarrow> bool" where
  "IsInf f sign = (sign \<ge> 0 \<and> f = PosInf \<or> sign \<le> 0 \<and> f = NegInf)"

subsection \<open>time: a civil time and the layout elements of RFC 3339\<close>

text \<open>
  \<^verbatim>\<open>t.AppendFormat(b, layout)\<close> appends \<^verbatim>\<open>t.Format(layout)\<close> to \<^verbatim>\<open>b\<close>. The encoder's
  operations take the formatter as the parameter \<open>Format\<close> (time and layout to text), for
  any type of time values. For the concrete entries below, \<open>timeFormat\<close> renders a civil
  time for layouts made of the reference elements that \<^verbatim>\<open>time.RFC3339\<close> uses
  (\<^verbatim>\<open>2006 01 02 15 04 05 Z07:00\<close>); every other byte of the layout is copied.
\<close>

record Time =
  year :: nat
  month :: nat
  day :: nat
  hour :: nat
  minute :: nat
  second :: nat
  zoneOffset :: int

definition RFC3339 :: string where
  "RFC3339 = ''2006-01-02T15:04:05Z07:00''"

definition pad2 :: "nat \<Rightarrow> string" where
  "pad2 n = [digit (n div 10), digit n]"

definition pad4 :: "nat \<Rightarrow> string" where
  "pad4 n = [digit (n div 1000), digit (n div 100), digit (n div 10), digit n]"

definition zoneText :: "int \<Rightarrow> string" where
  "zoneText off =
     (if off = 0 then ''Z''
      else (if off < 0 then ''-'' else ''+'') @
           pad2 (nat \<bar>off\<bar> div 60 div 60) @ '':'' @ pad2 (nat \<bar>off\<bar> div 60 mod 60))"

fun timeFormat :: "Time \<Rightarrow> string \<Rightarrow> string" where
  "timeFormat t [] = []"
| "timeFormat t (c # cs) =
     (if take 4 (c # cs) = ''2006'' then pad4 (year t) @ timeFormat t (drop 3 cs)
      else if take 2 (c # cs) = ''01'' then pad2 (month t) @ timeFormat t (drop 1 cs)
      else if take 2 (c # cs) = ''02'' then pad2 (day t) @ timeFormat t (drop 1 cs)
      else if take 2 (c # cs) = ''15'' then pad2 (hour t) @ timeFormat t (drop 1 cs)
      else if take 2 (c # cs) = ''04'' then pad2 (minute t) @ timeFormat t (drop 1 cs)
      else if take 2 (c # cs) = ''05'' then pad2 (second t) @ timeFormat t (drop 1 cs)
      else if take 6 (c # cs) = ''Z07:00'' then zoneText (zoneOffset t) @ timeFormat t (drop 5 cs)
      else c # timeFormat t cs)"

section \<open>text\_encoder.go\<close>

subsection \<open>Data\<close>

record textEncoder =
  bytes :: string
  timeFmt :: string
  noName :: bool

text \<open>
  Modelled from the spec: the type \<^verbatim>\<open>Level\<close> and its six constants are declared outside
  \<^verbatim>\<open>src/\<close>. The specification describes a severity level as one of six standard levels
  plus an unknown fallback that is rendered as its raw numeric value. The six constants are
  distinct (they label the cases of one \<^verbatim>\<open>switch\<close>); \<open>OtherLevel n\<close> is a level whose
  numeric value \<open>n\<close> is none of theirs.
\<close>

datatype Level =
  DebugLevel | InfoLevel | WarnLevel | ErrorLevel | PanicLevel | FatalLevel | OtherLevel int

text \<open>
  Modelled from the spec: the variable \<^verbatim>\<open>errNilSink\<close> is declared outside \<^verbatim>\<open>src/\<close>; the
  specification calls it the nil-sink error, returned when no sink was supplied. Errors are
  values: \<open>errNilSink\<close> is that variable, and every other error, made by \<^verbatim>\<open>fmt.Errorf\<close>
  here or by a sink or a marshalable object elsewhere, is identified by its message.
\<close>

datatype error = errNilSink | Errorf string

text \<open>
  An \<^verbatim>\<open>io.Writer\<close> is modelled by what its \<^verbatim>\<open>Write\<close> returns for the bytes it is given:
  the count it reports and its error. A nil sink is \<open>None\<close>.
\<close>

type_synonym Writer = "string \<Rightarrow> int \<times> error option"

subsection \<open>Field operations\<close>

text \<open>
  A method with a pointer receiver takes the encoder and returns the updated encoder. The
  operations are stated for every extension of the record, so that they apply to the text
  encoder embedded in the ANSI encoder as well.
\<close>

definition truncate_enc :: "'a textEncoder_scheme \<Rightarrow> 'a textEncoder_scheme" where
  "truncate_enc enc = enc\<lparr>bytes := take 0 (bytes enc)\<rparr>"

definition addKey :: "'a textEncoder_scheme \<Rightarrow> string \<Rightarrow> 'a textEncoder_scheme" where
  "addKey enc key =
     (let lastIdx = int (length (bytes enc)) - 1;
          enc1 = (if lastIdx \<ge> 0 \<and> bytes enc ! nat lastIdx \<noteq> CHR ''{''
                  then enc\<lparr>bytes := bytes enc @ '' ''\<rparr> else enc);
          enc2 = enc1\<lparr>bytes := bytes enc1 @ key\<rparr>
      in enc2\<lparr>bytes := bytes enc2 @ ''=''\<rparr>)"

definition AddString :: "'a textEncoder_scheme \<Rightarrow> string \<Rightarrow> string \<Rightarrow> 'a textEncoder_scheme" where
  "AddString enc key val = (let enc1 = addKey enc key in enc1\<lparr>bytes := bytes enc1 @ val\<rparr>)"

definition AddBool :: "'a textEncoder_scheme \<Rightarrow> string \<Rightarrow> bool \<Rightarrow> 'a textEncoder_scheme" where
  "AddBool enc key val =
     (let enc1 = addKey enc key in
      if val then enc1\<lparr>bytes := bytes enc1 @ ''true''\<rparr>
      else enc1\<lparr>bytes := bytes enc1 @ ''false''\<rparr>)"

definition AddByte :: "'a textEncoder_scheme \<Rightarrow> string \<Rightarrow> byte \<Rightarrow> 'a textEncoder_scheme" where
  "AddByte enc key val =
     (let enc1 = addKey enc key;
          enc2 = enc1\<lparr>bytes := bytes enc1 @ ''0x''\<rparr>;
          enc3 = enc2\<lparr>bytes := bytes enc2 @ [hextable ! unat (drop_bit 4 val)]\<rparr>
      in enc3\<lparr>bytes := bytes enc3 @ [hextable ! unat (val AND 0x0F)]\<rparr>)"

definition AddBytes :: "'a textEncoder_scheme \<Rightarrow> string \<Rightarrow> byte list \<Rightarrow> 'a textEncoder_scheme" where
  "AddBytes enc key val = (let enc1 = addKey enc key in enc1\<lparr>bytes := hexEncode (bytes enc1) val\<rparr>)"

definition AddInt64 :: "'a textEncoder_scheme \<Rightarrow> string \<Rightarrow> 64 word \<Rightarrow> 'a textEncoder_scheme" where
  "AddInt64 enc key val = (let enc1 = addKey enc key in enc1\<lparr>bytes := AppendInt (bytes enc1) val\<rparr>)"

text \<open>
  \<^verbatim>\<open>int\<close> and \<^verbatim>\<open>uint\<close> are 64 bits wide here; \<^verbatim>\<open>int64(val)\<close> is then the signed and
  \<^verbatim>\<open>uint64(val)\<close> the unsigned conversion to the same width.
\<close>

definition AddInt :: "'a textEncoder_scheme \<Rightarrow> string \<Rightarrow> 64 word \<Rightarrow> 'a textEncoder_scheme" where
  "AddInt enc key val = AddInt64 enc key (scast val)"

definition AddUint64 :: "'a textEncoder_scheme \<Rightarrow> string \<Rightarrow> 64 word \<Rightarrow> 'a textEncoder_scheme" where
  "AddUint64 enc key val = (let enc1 = addKey enc key in enc1\<lparr>bytes := AppendUint (bytes enc1) val\<rparr>)"

definition AddUint :: "'a textEncoder_scheme \<Rightarrow> string \<Rightarrow> 64 word \<Rightarrow> 'a textEncoder_scheme" where
  "AddUint enc key val = AddUint64 enc key (ucast val)"

definition addFloat ::
  "(float \<Rightarrow> nat \<Rightarrow> string) \<Rightarrow> 'a textEncoder_scheme \<Rightarrow> string \<Rightarrow> float \<Rightarrow> nat \<Rightarrow> 'a textEncoder_scheme"
where
  "addFloat FormatFloat enc key val bitSize =
     (let enc1 = addKey enc key in
      if IsNaN val then enc1\<lparr>bytes := bytes enc1 @ ''NaN''\<rparr>
      else if IsInf val 1 then enc1\<lparr>bytes := bytes enc1 @ ''+Inf''\<rparr>
      else if IsInf val (- 1) then enc1\<lparr>bytes := bytes enc1 @ ''-Inf''\<rparr>
      else enc1\<lparr>bytes := bytes enc1 @ FormatFloat val bitSize\<rparr>)"

definition AddFloat32 ::
  "(float \<Rightarrow> nat \<Rightarrow> string) \<Rightarrow> 'a textEncoder_scheme \<Rightarrow> string \<Rightarrow> float \<Rightarrow> 'a textEncoder_scheme"
where
  "AddFloat32 FormatFloat enc key val = addFloat FormatFloat enc key val 32"

definition AddFloat64 ::
  "(float \<Rightarrow> nat \<Rightarrow> string) \<Rightarrow> 'a textEncoder_scheme \<Rightarrow> string \<Rightarrow> float \<Rightarrow> 'a textEncoder_scheme"
where
  "AddFloat64 FormatFloat enc key val = addFloat FormatFloat enc key val 64"

subsection \<open>Marshalable objects\<close>

text \<open>
  A \<^verbatim>\<open>LogMarshaler\<close> receives the encoder through an interface that offers the
  \<^verbatim>\<open>Add\<close> operations only. It is modelled by the run of its \<^verbatim>\<open>MarshalLog\<close>: the
  operations it calls on the encoder, in order, and the error it returns. \<^verbatim>\<open>AddObject\<close>
  takes any value; the type of those values is the parameter \<open>'o\<close>, and
  \<^verbatim>\<open>fmt.Sprintf("%+v", obj)\<close>, a library function, is the parameter \<open>Sprintf\<close>.
\<close>

datatype 'o call =
    CallAddString string string
  | CallAddBool string bool
  | CallAddByte string byte
  | CallAddBytes string "byte list"
  | CallAddInt string "64 word"
  | CallAddInt64 string "64 word"
  | CallAddUint string "64 word"
  | CallAddUint64 string "64 word"
  | CallAddFloat32 string float
  | CallAddFloat64 string float
  | CallAddMarshaler string "'o LogMarshaler"
  | CallAddObject string 'o
and 'o LogMarshaler = LogMarshaler "'o call list" "error option"

definition AddObject ::
  "('o \<Rightarrow> string) \<Rightarrow> 'a textEncoder_scheme \<Rightarrow> string \<Rightarrow> 'o \<Rightarrow> error option \<times> 'a textEncoder_scheme"
where
  "AddObject Sprintf enc key obj = (None, AddString enc key (Sprintf obj))"

fun AddMarshaler ::
    "(float \<Rightarrow> nat \<Rightarrow> string) \<Rightarrow> ('o \<Rightarrow> string) \<Rightarrow> 'a textEncoder_scheme \<Rightarrow> string \<Rightarrow>
       'o LogMarshaler \<Rightarrow> error option \<times> 'a textEncoder_scheme"
  and MarshalLog ::
    "(float \<Rightarrow> nat \<Rightarrow> string) \<Rightarrow> ('o \<Rightarrow> string) \<Rightarrow> 'o LogMarshaler \<Rightarrow> 'a textEncoder_scheme \<Rightarrow>
       error option \<times> 'a textEncoder_scheme"
  and perform ::
    "(float \<Rightarrow> nat \<Rightarrow> string) \<Rightarrow> ('o \<Rightarrow> string) \<Rightarrow> 'o call \<Rightarrow> 'a textEncoder_scheme \<Rightarrow>
       'a textEncoder_scheme"
  and performAll ::
    "(float \<Rightarrow> nat \<Rightarrow> string) \<Rightarrow> ('o \<Rightarrow> string) \<Rightarrow> 'o call list \<Rightarrow> 'a textEncoder_scheme \<Rightarrow>
       'a textEncoder_scheme"
where
  "AddMarshaler FormatFloat Sprintf enc key obj =
     (let enc1 = addKey enc key;
          enc2 = enc1\<lparr>bytes := bytes enc1 @ ''{''\<rparr>;
          (err, enc3) = MarshalLog FormatFloat Sprintf obj enc2;
          enc4 = enc3\<lparr>bytes := bytes enc3 @ ''}''\<rparr>
      in (err, enc4))"
| "MarshalLog FormatFloat Sprintf (LogMarshaler calls err) enc =
     (err, performAll FormatFloat Sprintf calls enc)"
| "perform FormatFloat Sprintf (CallAddString key val) enc = AddString enc key val"
| "perform FormatFloat Sprintf (CallAddBool key val) enc = AddBool enc key val"
| "perform FormatFloat Sprintf (CallAddByte key val) enc = AddByte enc key val"
| "perform FormatFloat Sprintf (CallAddBytes key val) enc = AddBytes enc key val"
| "perform FormatFloat Sprintf (CallAddInt key val) enc = AddInt enc key val"
| "perform FormatFloat Sprintf (CallAddInt64 key val) enc = AddInt64 enc key val"
| "perform FormatFloat Sprintf (CallAddUint key val) enc = AddUint enc key val"
| "perform FormatFloat Sprintf (CallAddUint64 key val) enc = AddUint64 enc key val"
| "perform FormatFloat Sprintf (CallAddFloat32 key val) enc = AddFloat32 FormatFloat enc key val"
| "perform FormatFloat Sprintf (CallAddFloat64 key val) enc = AddFloat64 FormatFloat enc key val"
| "perform FormatFloat Sprintf (CallAddMarshaler key obj) enc =
     snd (AddMarshaler FormatFloat Sprintf enc key obj)"
| "perform FormatFloat Sprintf (CallAddObject key obj) enc = snd (AddObject Sprintf enc key obj)"
| "performAll FormatFloat Sprintf [] enc = enc"
| "performAll FormatFloat Sprintf (c # cs) enc =
     performAll FormatFloat Sprintf cs (perform FormatFloat Sprintf c enc)"

subsection \<open>Framing of an entry\<close>

text \<open>
  These methods read the receiver \<^verbatim>\<open>enc\<close> and append to \<^verbatim>\<open>final\<close>; they return the
  updated \<^verbatim>\<open>final\<close>.
\<close>

definition addLevel :: "'a textEncoder_scheme \<Rightarrow> 'b textEncoder_scheme \<Rightarrow> Level \<Rightarrow> 'b textEncoder_scheme" where
  "addLevel enc final lvl =
     (let final1 = final\<lparr>bytes := bytes final @ ''[''\<rparr>;
          final2 =
            (case lvl of
               DebugLevel \<Rightarrow> final1\<lparr>bytes := bytes final1 @ ''D''\<rparr>
             | InfoLevel \<Rightarrow> final1\<lparr>bytes := bytes final1 @ ''I''\<rparr>
             | WarnLevel \<Rightarrow> final1\<lparr>bytes := bytes final1 @ ''W''\<rparr>
             | ErrorLevel \<Rightarrow> final1\<lparr>bytes := bytes final1 @ ''E''\<rparr>
             | PanicLevel \<Rightarrow> final1\<lparr>bytes := bytes final1 @ ''P''\<rparr>
             | FatalLevel \<Rightarrow> final1\<lparr>bytes := bytes final1 @ ''F''\<rparr>
             | OtherLevel n \<Rightarrow> final1\<lparr>bytes := bytes final1 @ FormatInt n\<rparr>)
      in final2\<lparr>bytes := bytes final2 @ '']''\<rparr>)"

definition addTime ::
  "('t \<Rightarrow> string \<Rightarrow> string) \<Rightarrow> 'a textEncoder_scheme \<Rightarrow> 'b textEncoder_scheme \<Rightarrow> 't \<Rightarrow> 'b textEncoder_scheme"
where
  "addTime Format enc final t =
     (if timeFmt enc = [] then final
      else let final1 = final\<lparr>bytes := bytes final @ '' ''\<rparr>
           in final1\<lparr>bytes := bytes final1 @ Format t (timeFmt enc)\<rparr>)"

definition addName :: "'a textEncoder_scheme \<Rightarrow> 'b textEncoder_scheme \<Rightarrow> string \<Rightarrow> 'b textEncoder_scheme" where
  "addName enc final name =
     (if name = [] \<or> noName enc then final
      else let final1 = final\<lparr>bytes := bytes final @ '' ''\<rparr>
           in final1\<lparr>bytes := bytes final1 @ name\<rparr>)"

definition addMessage :: "'a textEncoder_scheme \<Rightarrow> 'b textEncoder_scheme \<Rightarrow> string \<Rightarrow> 'b textEncoder_scheme" where
  "addMessage enc final msg =
     (let final1 = final\<lparr>bytes := bytes final @ '' ''\<rparr>
      in final1\<lparr>bytes := bytes final1 @ msg\<rparr>)"

subsection \<open>Options\<close>

type_synonym TextOption = "textEncoder \<Rightarrow> textEncoder"

definition TextTimeFormat :: "string \<Rightarrow> TextOption" where
  "TextTimeFormat layout = (\<lambda>enc. enc\<lparr>timeFmt := layout\<rparr>)"

definition TextNoTime :: TextOption where
  "TextNoTime = TextTimeFormat []"

definition TextNoName :: TextOption where
  "TextNoName = (\<lambda>enc. enc\<lparr>noName := True\<rparr>)"

section \<open>Encoder objects and the pool\<close>

text \<open>
  Encoders are objects reached through pointers, and \<^verbatim>\<open>textPool\<close> hands out pointers to
  objects released earlier. The store maps the address of every text encoder object to its
  value; \<open>textPool\<close> lists the addresses released with \<^verbatim>\<open>Free\<close> and not handed out since;
  addresses from \<open>textNext\<close> on are unused. No byte slice is ever assigned from one object to
  another (every assignment to \<^verbatim>\<open>bytes\<close> appends to, or truncates, the object's own slice),
  so two objects never share a backing array and a buffer is part of its object's value.
  ANSI encoder objects have a type of their own and a store of their own.

  \<^verbatim>\<open>sync.Pool.Get\<close> may return any released object, or a new one: the model takes the first
  of the list, and a new object when the list is empty. Every statement below holds for every
  state, hence for every order and every subset of the released objects.
\<close>

type_synonym addr = nat

record ansiEncoder = textEncoder +
  debugColor :: string
  infoColor :: string
  warnColor :: string
  errorColor :: string
  panicColor :: string
  fatalColor :: string

record state =
  textHeap :: "addr \<Rightarrow> textEncoder"
  textPool :: "addr list"
  textNext :: addr
  ansiHeap :: "addr \<Rightarrow> ansiEncoder"

definition textPool_New :: textEncoder where
  "textPool_New = \<lparr>bytes = [], timeFmt = [], noName = False\<rparr>"

definition textPool_Get :: "state \<Rightarrow> addr \<times> state" where
  "textPool_Get s =
     (case textPool s of
        [] \<Rightarrow> (textNext s,
               s\<lparr>textHeap := (textHeap s)(textNext s := textPool_New), textNext := Suc (textNext s)\<rparr>)
      | a # as \<Rightarrow> (a, s\<lparr>textPool := as\<rparr>))"

definition textPool_Put :: "state \<Rightarrow> addr \<Rightarrow> state" where
  "textPool_Put s a = s\<lparr>textPool := a # textPool s\<rparr>"

text \<open>
  \<open>update a f s\<close> assigns to the object at address \<open>a\<close> the value \<open>f\<close> computes in the
  state \<open>s\<close>: a statement of the source that writes a field of that object.
\<close>

definition update :: "addr \<Rightarrow> (state \<Rightarrow> textEncoder) \<Rightarrow> state \<Rightarrow> state" where
  "update a f s = s\<lparr>textHeap := (textHeap s)(a := f s)\<rparr>"

definition NewTextEncoder :: "state \<Rightarrow> TextOption list \<Rightarrow> addr \<times> state" where
  "NewTextEncoder s options =
     (let (enc, s1) = textPool_Get s;
          s2 = update enc (\<lambda>s. truncate_enc (textHeap s enc)) s1;
          s3 = update enc (\<lambda>s. (textHeap s enc)\<lparr>timeFmt := RFC3339\<rparr>) s2;
          s4 = foldl (\<lambda>s opt. update enc (\<lambda>s. opt (textHeap s enc)) s) s3 options
      in (enc, s4))"

definition Free :: "state \<Rightarrow> addr \<Rightarrow> state" where
  "Free s enc = textPool_Put s enc"

definition Clone :: "state \<Rightarrow> addr \<Rightarrow> addr \<times> state" where
  "Clone s enc =
     (let (clone, s1) = textPool_Get s;
          s2 = update clone (\<lambda>s. truncate_enc (textHeap s clone)) s1;
          s3 = update clone
                 (\<lambda>s. (textHeap s clone)\<lparr>bytes := bytes (textHeap s clone) @ bytes (textHeap s enc)\<rparr>) s2;
          s4 = update clone (\<lambda>s. (textHeap s clone)\<lparr>timeFmt := timeFmt (textHeap s enc)\<rparr>) s3
      in (clone, s4))"

subsection \<open>Writing an entry\<close>

text \<open>
  The result of \<^verbatim>\<open>WriteEntry\<close> is the error it returns, the byte sequences it passed to the
  sink's \<^verbatim>\<open>Write\<close> (in order), and the state it leaves. Every step reads the objects
  through the store, so the model also says what happens when \<^verbatim>\<open>final\<close> and \<^verbatim>\<open>enc\<close> are
  the same object. \<^verbatim>\<open>%v\<close> renders an \<^verbatim>\<open>int\<close> in base 10.
\<close>

definition incompleteWrite :: "int \<Rightarrow> int \<Rightarrow> error" where
  "incompleteWrite n expectedBytes =
     Errorf (''incomplete write: only wrote '' @ FormatInt n @ '' of '' @ FormatInt expectedBytes @ '' bytes'')"

definition WriteEntry ::
  "('t \<Rightarrow> string \<Rightarrow> string) \<Rightarrow> state \<Rightarrow> addr \<Rightarrow> Writer option \<Rightarrow> string \<Rightarrow> string \<Rightarrow> Level \<Rightarrow> 't \<Rightarrow>
     error option \<times> string list \<times> state"
where
  "WriteEntry Format s enc sink name msg lvl t =
     (case sink of
        None \<Rightarrow> (Some errNilSink, [], s)
      | Some sinkWrite \<Rightarrow>
          (let (final, s1) = textPool_Get s;
               s2 = update final (\<lambda>s. truncate_enc (textHeap s final)) s1;
               s3 = update final (\<lambda>s. addLevel (textHeap s enc) (textHeap s final) lvl) s2;
               s4 = update final (\<lambda>s. addTime Format (textHeap s enc) (textHeap s final) t) s3;
               s5 = update final (\<lambda>s. addName (textHeap s enc) (textHeap s final) name) s4;
               s6 = update final (\<lambda>s. addMessage (textHeap s enc) (textHeap s final) msg) s5;
               s7 = (if length (bytes (textHeap s6 enc)) > 0 then
                       update final
                         (\<lambda>s. (textHeap s final)\<lparr>bytes := bytes (textHeap s final) @ bytes (textHeap s enc)\<rparr>)
                         (update final (\<lambda>s. (textHeap s final)\<lparr>bytes := bytes (textHeap s final) @ '' ''\<rparr>) s6)
                     else s6);
               s8 = update final (\<lambda>s. (textHeap s final)\<lparr>bytes := bytes (textHeap s final) @ [CHR 0x0A]\<rparr>) s7;
               expectedBytes = int (length (bytes (textHeap s8 final)));
               (n, err) = sinkWrite (bytes (textHeap s8 final));
               written = [bytes (textHeap s8 final)];
               s9 = Free s8 final
           in case err of
                Some e \<Rightarrow> (Some e, written, s9)
              | None \<Rightarrow>
                  if n \<noteq> expectedBytes then (Some (incompleteWrite n expectedBytes), written, s9)
                  else (None, written, s9)))"

section \<open>ansi\_encoder.go\<close>

text \<open>
  \<^verbatim>\<open>resetColor\<close> is \<^verbatim>\<open>ansi.ColorCode("reset")\<close> of the library \<^verbatim>\<open>github.com/mgutz/ansi\<close>:
  the escape sequence \<^verbatim>\<open>ESC [ 0 m\<close>, the value the specification gives for it.
\<close>

definition resetColor :: string where
  "resetColor = CHR 0x1B # ''[0m''"

definition addLevelColor :: "'a ansiEncoder_scheme \<Rightarrow> 'b textEncoder_scheme \<Rightarrow> Level \<Rightarrow> 'b textEncoder_scheme" where
  "addLevelColor enc final lvl =
     (case lvl of
        DebugLevel \<Rightarrow> final\<lparr>bytes := bytes final @ debugColor enc\<rparr>
      | InfoLevel \<Rightarrow> final\<lparr>bytes := bytes final @ infoColor enc\<rparr>
      | WarnLevel \<Rightarrow> final\<lparr>bytes := bytes final @ warnColor enc\<rparr>
      | ErrorLevel \<Rightarrow> final\<lparr>bytes := bytes final @ errorColor enc\<rparr>
      | PanicLevel \<Rightarrow> final\<lparr>bytes := bytes final @ panicColor enc\<rparr>
      | FatalLevel \<Rightarrow> final\<lparr>bytes := bytes final @ fatalColor enc\<rparr>
      | OtherLevel n \<Rightarrow> final)"

definition clearLevelColor :: "'a ansiEncoder_scheme \<Rightarrow> 'b textEncoder_scheme \<Rightarrow> Level \<Rightarrow> 'b textEncoder_scheme" where
  "clearLevelColor enc final lvl =
     (if lvl = DebugLevel \<or> lvl = InfoLevel \<or> lvl = WarnLevel \<or> lvl = ErrorLevel \<or> lvl = PanicLevel \<or>
         lvl = FatalLevel
      then final\<lparr>bytes := bytes final @ resetColor\<rparr>
      else final)"

definition ansiEncoder_WriteEntry ::
  "('t \<Rightarrow> string \<Rightarrow> string) \<Rightarrow> state \<Rightarrow> addr \<Rightarrow> Writer option \<Rightarrow> string \<Rightarrow> string \<Rightarrow> Level \<Rightarrow> 't \<Rightarrow>
     error option \<times> string list \<times> state"
where
  "ansiEncoder_WriteEntry Format s enc sink name msg lvl t =
     (case sink of
        None \<Rightarrow> (Some errNilSink, [], s)
      | Some sinkWrite \<Rightarrow>
          (let (final, s1) = textPool_Get s;
               s2 = update final (\<lambda>s. truncate_enc (textHeap s final)) s1;
               s3 = update final (\<lambda>s. addLevelColor (ansiHeap s enc) (textHeap s final) lvl) s2;
               s4 = update final (\<lambda>s. addLevel (ansiHeap s enc) (textHeap s final) lvl) s3;
               s5 = update final (\<lambda>s. addTime Format (ansiHeap s enc) (textHeap s final) t) s4;
               s6 = update final (\<lambda>s. addName (ansiHeap s enc) (textHeap s final) name) s5;
               s7 = update final (\<lambda>s. addMessage (ansiHeap s enc) (textHeap s final) msg) s6;
               s8 = (if length (bytes (ansiHeap s7 enc)) > 0 then
                       update final
                         (\<lambda>s. (textHeap s final)\<lparr>bytes := bytes (textHeap s final) @ bytes (ansiHeap s enc)\<rparr>)
                         (update final (\<lambda>s. (textHeap s final)\<lparr>bytes := bytes (textHeap s final) @ '' ''\<rparr>) s7)
                     else s7);
               s9 = update final (\<lambda>s. clearLevelColor (ansiHeap s enc) (textHeap s final) lvl) s8;
               s10 = update final (\<lambda>s. (textHeap s final)\<lparr>bytes := bytes (textHeap s final) @ [CHR 0x0A]\<rparr>) s9;
               expectedBytes = int (length (bytes (textHeap s10 final)));
               (n, err) = sinkWrite (bytes (textHeap s10 final));
               written = [bytes (textHeap s10 final)];
               s11 = Free s10 final
           in case err of
                Some e \<Rightarrow> (Some e, written, s11)
              | None \<Rightarrow>
                  if n \<noteq> expectedBytes then (Some (incompleteWrite n expectedBytes), written, s11)
                  else (None, written, s11)))"

section \<open>Notions used in the statements\<close>

text \<open>
  An encoder object is owned by its caller when it has been allocated and is not among the
  released objects: the caller has not used \<^verbatim>\<open>Free\<close> on it since it was handed out.
\<close>

definition owned :: "state \<Rightarrow> addr \<Rightarrow> bool" where
  "owned s a = (a < textNext s \<and> a \<notin> set (textPool s))"

text \<open>The separator that \<^verbatim>\<open>addKey\<close> puts before a key, given the buffer it appends to.\<close>

definition separator :: "string \<Rightarrow> string" where
  "separator buf = (if buf \<noteq> [] \<and> last buf \<noteq> CHR ''{'' then '' '' else [])"

text \<open>
  The body of an entry: level tag, time, name, message and accumulated fields, without colour
  and without the final newline.
\<close>

definition entryBody ::
  "('t \<Rightarrow> string \<Rightarrow> string) \<Rightarrow> 'a textEncoder_scheme \<Rightarrow> string \<Rightarrow> string \<Rightarrow> Level \<Rightarrow> 't \<Rightarrow> string"
where
  "entryBody Format enc name msg lvl t =
     ''['' @ (case lvl of DebugLevel \<Rightarrow> ''D'' | InfoLevel \<Rightarrow> ''I'' | WarnLevel \<Rightarrow> ''W'' | ErrorLevel \<Rightarrow> ''E''
              | PanicLevel \<Rightarrow> ''P'' | FatalLevel \<Rightarrow> ''F'' | OtherLevel n \<Rightarrow> FormatInt n) @ '']'' @
     (if timeFmt enc = [] then [] else '' '' @ Format t (timeFmt enc)) @
     (if name = [] \<or> noName enc then [] else '' '' @ name) @
     '' '' @ msg @
     (if bytes enc = [] then [] else '' '' @ bytes enc)"

definition recognized :: "Level \<Rightarrow> bool" where
  "recognized lvl = (case lvl of OtherLevel n \<Rightarrow> False | _ \<Rightarrow> True)"

definition levelColor :: "'a ansiEncoder_scheme \<Rightarrow> Level \<Rightarrow> string" where
  "levelColor enc lvl =
     (case lvl of DebugLevel \<Rightarrow> debugColor enc | InfoLevel \<Rightarrow> infoColor enc | WarnLevel \<Rightarrow> warnColor enc
      | ErrorLevel \<Rightarrow> errorColor enc | PanicLevel \<Rightarrow> panicColor enc | FatalLevel \<Rightarrow> fatalColor enc
      | OtherLevel n \<Rightarrow> [])"

text \<open>
  What \<^verbatim>\<open>WriteEntry\<close> returns once the sink has answered \<open>r\<close> (the count and the error of
  \<^verbatim>\<open>Write\<close>) for the assembled \<open>line\<close>.
\<close>

definition writeResult :: "int \<times> error option \<Rightarrow> string \<Rightarrow> error option" where
  "writeResult r line =
     (case snd r of
        Some err \<Rightarrow> Some err
      | None \<Rightarrow> if fst r = int (length line) then None
                else Some (incompleteWrite (fst r) (int (length line))))"

text \<open>
  The state of a program that has not yet asked for an encoder: nothing allocated, nothing
  released. The contents of unallocated addresses are immaterial.
\<close>

definition initial :: state where
  "initial =
     \<lparr>textHeap = (\<lambda>a. textPool_New), textPool = [], textNext = 0,
      ansiHeap = (\<lambda>a. \<lparr>bytes = [], timeFmt = [], noName = False, debugColor = [], infoColor = [],
                         warnColor = [], errorColor = [], panicColor = [], fatalColor = []\<rparr>)\<rparr>"

text \<open>The timestamp of the specification's scenarios, 2021-01-01T00:00:00Z.\<close>

definition newYear2021 :: Time where
  "newYear2021 = \<lparr>year = 2021, month = 1, day = 1, hour = 0, minute = 0, second = 0, zoneOffset = 0\<rparr>"

text \<open>A sink that accepts everything and reports the count it was given.\<close>

definition exactSink :: Writer where
  "exactSink b = (int (length b), None)"

text \<open>A sink that reports no error and one byte more than it was given.\<close>

definition overReportingSink :: Writer where
  "overReportingSink b = (int (length b) + 1, None)"

text \<open>A sink that reports an error, and a sink that reports no error and one byte less.\<close>

definition failingSink :: Writer where
  "failingSink b = (0, Some (Errorf ''disk full''))"

definition shortSink :: Writer where
  "shortSink b = (int (length b) - 1, None)"

text \<open>
  The state of the specification's colour scenario: an ANSI encoder and a text encoder, both
  at address 0 of their stores, with the one field \<^verbatim>\<open>count=3\<close>, the RFC 3339 format, names
  printed, and \<^verbatim>\<open>ESC [ 3 2 m\<close> as the colour of level Info.
\<close>

definition colourScenario :: state where
  "colourScenario =
     \<lparr>textHeap = (\<lambda>a. \<lparr>bytes = ''count=3'', timeFmt = RFC3339, noName = False\<rparr>),
      textPool = [], textNext = 1,
      ansiHeap = (\<lambda>a. \<lparr>bytes = ''count=3'', timeFmt = RFC3339, noName = False,
                         debugColor = [], infoColor = CHR 0x1B # ''[32m'', warnColor = [],
                         errorColor = [], panicColor = [], fatalColor = []\<rparr>)\<rparr>"

section \<open>Hexadecimal rendering\<close>

lemma hexEncode_loop:
  "foldl (\<lambda>dst v. (dst @ [hextable ! unat (drop_bit 4 v)]) @ [hextable ! unat (v AND 0x0F)]) acc src =
     acc @ concat (map (\<lambda>v. [hextable ! unat (drop_bit 4 v), hextable ! unat (v AND 0x0F)]) src)"
  by (induction src arbitrary: acc) simp_all

lemma high_nibble: "unat (drop_bit 4 (v :: byte)) = unat v div 16"
  by (simp add: drop_bit_eq_div unat_div)

lemma low_nibble: "unat ((v :: byte) AND 0x0F) = unat v mod 16"
proof -
  have "v AND 0x0F = take_bit 4 v"
    by (simp add: take_bit_eq_mask mask_numeral)
  then show ?thesis
    by (simp add: take_bit_eq_mod unat_mod)
qed

lemma hexEncode_eq: "hexEncode dst src = dst @ ''0x'' @ concat (map hexDigits src)"
proof -
  have "(\<lambda>v :: byte. [hextable ! unat (drop_bit 4 v), hextable ! unat (v AND 0x0F)]) = hexDigits"
    by (rule ext) (simp only: hexDigits_def high_nibble low_nibble)
  then show ?thesis
    unfolding hexEncode_def hexEncode_loop by simp
qed

lemma fromHexChar_hextable: "\<forall>n<16. fromHexChar (hextable ! n) = Some n"
  by (simp add: eval_nat_numeral All_less_Suc hextable_def fromHexChar_def)

lemma hexPairs_hexDigits:
  "hexPairs (hexDigits v @ rest) = (case hexPairs rest of None \<Rightarrow> None | Some bs \<Rightarrow> Some (v # bs))"
proof -
  have "unat v < 256"
    using unsigned_less [of v] by simp
  then have "unat v div 16 < 16"
    by simp
  then have h: "fromHexChar (hextable ! (unat v div 16)) = Some (unat v div 16)"
    using fromHexChar_hextable by blast
  have l: "fromHexChar (hextable ! (unat v mod 16)) = Some (unat v mod 16)"
    using fromHexChar_hextable by simp
  have "(of_nat (unat v div 16 * 16 + unat v mod 16) :: byte) = v"
    by simp
  with h l show ?thesis
    by (simp add: hexDigits_def split: option.splits)
qed

lemma hexPairs_concat: "hexPairs (concat (map hexDigits src)) = Some src"
  by (induction src) (simp_all add: hexPairs_hexDigits)

lemma hexDigits_upper: "set (hexDigits v) \<subseteq> set hextable"
proof -
  have "unat v < 256"
    using unsigned_less [of v] by simp
  then have "unat v div 16 < length hextable" and "unat v mod 16 < length hextable"
    by (simp_all add: hextable_def)
  then show ?thesis
    by (simp add: hexDigits_def)
qed

text \<open>
  C7. For every destination buffer and every source byte sequence, \<^verbatim>\<open>hexEncode\<close> returns the
  destination followed by \<^verbatim>\<open>0x\<close> and, for each source byte in order, its two uppercase
  hexadecimal digits; the destination contents stay as they were, the digits are all from
  \<^verbatim>\<open>0123456789ABCDEF\<close>, and decoding the appended rendering gives back the source bytes. The
  value that \<^verbatim>\<open>AddBytes\<close> appends after the key decodes to the bytes it was given.
\<close>

theorem hexEncode_roundtrip:
  "hexEncode dst src = dst @ ''0x'' @ concat (map hexDigits src) \<and>
   take (length dst) (hexEncode dst src) = dst \<and>
   length (hexEncode dst src) = length dst + 2 + 2 * length src \<and>
   set (concat (map hexDigits src)) \<subseteq> set ''0123456789ABCDEF'' \<and>
   hexDecode (drop (length dst) (hexEncode dst src)) = Some src \<and>
   hexDecode (drop (length (bytes (addKey enc key))) (bytes (AddBytes enc key src))) = Some src"
proof -
  have len: "length (concat (map hexDigits src)) = 2 * length src"
    by (induction src) (simp_all add: hexDigits_def)
  have "set (concat (map hexDigits src)) \<subseteq> set hextable"
    using hexDigits_upper by (induction src) auto
  then have up: "set (concat (map hexDigits src)) \<subseteq> set ''0123456789ABCDEF''"
    by (simp only: hextable_def)
  have dec: "hexDecode (''0x'' @ concat (map hexDigits src)) = Some src"
    by (simp add: hexDecode_def hexPairs_concat)
  show ?thesis
    using len up dec by (simp add: hexEncode_eq AddBytes_def Let_def)
qed

theorem hexEncode_roundtrip_witness:
  "hexEncode ''id='' [0x00, 0x1F, 0xAB] = ''id=0x001FAB'' \<and>
   hexDecode ''0x001FAB'' = Some [0x00, 0x1F, 0xAB]"
proof -
  note r = hexEncode_roundtrip [of "''id=''" "[0x00, 0x1F, 0xAB]"
      "\<lparr>bytes = [], timeFmt = [], noName = False\<rparr>" "[]"]
  from r have e: "hexEncode ''id='' [0x00, 0x1F, 0xAB] = ''id=0x001FAB''"
    by (simp add: hexDigits_def hextable_def)
  from r have "hexDecode (drop (length ''id='') (hexEncode ''id='' [0x00, 0x1F, 0xAB])) = Some [0x00, 0x1F, 0xAB]"
    by blast
  then have "hexDecode ''0x001FAB'' = Some [0x00, 0x1F, 0xAB]"
    unfolding e by simp
  with e show ?thesis
    by blast
qed

section \<open>Field operations: the separator and the value text\<close>

lemma addKey_bytes: "bytes (addKey enc key) = bytes enc @ separator (bytes enc) @ key @ ''=''"
proof (cases "bytes enc = []")
  case True
  then show ?thesis
    by (simp add: addKey_def separator_def)
next
  case False
  then have "nat (int (length (bytes enc)) - 1) = length (bytes enc) - 1"
    by simp
  with False have "bytes enc ! nat (int (length (bytes enc)) - 1) = last (bytes enc)"
    by (simp add: last_conv_nth)
  moreover from False have "0 \<le> int (length (bytes enc)) - 1"
    by (cases "bytes enc") simp_all
  ultimately show ?thesis
    using False by (simp add: addKey_def separator_def Let_def)
qed

lemma addKey_settings: "timeFmt (addKey enc key) = timeFmt enc \<and> noName (addKey enc key) = noName enc"
  by (simp add: addKey_def Let_def)

lemma hexDigits_nibbles: "[hextable ! unat (drop_bit 4 v), hextable ! unat (v AND 0x0F)] = hexDigits v"
  by (simp only: hexDigits_def high_nibble low_nibble)

text \<open>
  C2. Every \<^verbatim>\<open>Add<Type>(k, v)\<close> operation of the text encoder leaves the buffer as it was and
  appends the separator, then \<^verbatim>\<open>k=\<close>, then the text of the value. The separator is one space if
  and only if the buffer was non-empty and its last byte was not an opening brace, and is empty
  otherwise; so the first field has no leading space, and a separator is always followed by
  the key and \<^verbatim>\<open>=\<close>, never left at the end of the buffer.
\<close>

theorem Add_separator:
  "bytes (AddString enc key s) = bytes enc @ separator (bytes enc) @ key @ ''='' @ s \<and>
   bytes (AddBool enc key b) =
     bytes enc @ separator (bytes enc) @ key @ ''='' @ (if b then ''true'' else ''false'') \<and>
   bytes (AddByte enc key v) = bytes enc @ separator (bytes enc) @ key @ ''='' @ ''0x'' @ hexDigits v \<and>
   bytes (AddBytes enc key vs) =
     bytes enc @ separator (bytes enc) @ key @ ''='' @ ''0x'' @ concat (map hexDigits vs) \<and>
   bytes (AddInt enc key i) = bytes enc @ separator (bytes enc) @ key @ ''='' @ FormatInt (sint i) \<and>
   bytes (AddInt64 enc key i) = bytes enc @ separator (bytes enc) @ key @ ''='' @ FormatInt (sint i) \<and>
   bytes (AddUint enc key u) = bytes enc @ separator (bytes enc) @ key @ ''='' @ FormatUint (unat u) \<and>
   bytes (AddUint64 enc key u) = bytes enc @ separator (bytes enc) @ key @ ''='' @ FormatUint (unat u) \<and>
   bytes (AddFloat32 FormatFloat enc key f) =
     bytes enc @ separator (bytes enc) @ key @ ''='' @
       (case f of NaN \<Rightarrow> ''NaN'' | PosInf \<Rightarrow> ''+Inf'' | NegInf \<Rightarrow> ''-Inf'' | Finite sg m e \<Rightarrow> FormatFloat f 32) \<and>
   bytes (AddFloat64 FormatFloat enc key f) =
     bytes enc @ separator (bytes enc) @ key @ ''='' @
       (case f of NaN \<Rightarrow> ''NaN'' | PosInf \<Rightarrow> ''+Inf'' | NegInf \<Rightarrow> ''-Inf'' | Finite sg m e \<Rightarrow> FormatFloat f 64) \<and>
   bytes (snd (AddObject Sprintf enc key obj)) =
     bytes enc @ separator (bytes enc) @ key @ ''='' @ Sprintf obj \<and>
   (separator (bytes enc) = '' '') = (bytes enc \<noteq> [] \<and> last (bytes enc) \<noteq> CHR ''{'') \<and>
   (separator (bytes enc) = []) = (bytes enc = [] \<or> last (bytes enc) = CHR ''{'')"
proof -
  have str: "bytes (AddString enc key s) = bytes enc @ separator (bytes enc) @ key @ ''='' @ s" for s
    by (simp add: AddString_def Let_def addKey_bytes)
  have bool: "bytes (AddBool enc key b) =
      bytes enc @ separator (bytes enc) @ key @ ''='' @ (if b then ''true'' else ''false'')"
    by (simp add: AddBool_def Let_def addKey_bytes)
  have byte: "bytes (AddByte enc key v) = bytes enc @ separator (bytes enc) @ key @ ''='' @ ''0x'' @ hexDigits v"
    using hexDigits_nibbles [of v] by (simp add: AddByte_def Let_def addKey_bytes)
  have bytes: "bytes (AddBytes enc key vs) =
      bytes enc @ separator (bytes enc) @ key @ ''='' @ ''0x'' @ concat (map hexDigits vs)"
    by (simp add: AddBytes_def Let_def addKey_bytes hexEncode_eq)
  have i64: "bytes (AddInt64 enc key i) = bytes enc @ separator (bytes enc) @ key @ ''='' @ FormatInt (sint i)" for i
    by (simp add: AddInt64_def Let_def addKey_bytes AppendInt_def)
  have u64: "bytes (AddUint64 enc key u) = bytes enc @ separator (bytes enc) @ key @ ''='' @ FormatUint (unat u)" for u
    by (simp add: AddUint64_def Let_def addKey_bytes AppendUint_def)
  have int: "bytes (AddInt enc key i) = bytes enc @ separator (bytes enc) @ key @ ''='' @ FormatInt (sint i)"
    by (simp add: AddInt_def i64)
  have uint: "bytes (AddUint enc key u) = bytes enc @ separator (bytes enc) @ key @ ''='' @ FormatUint (unat u)"
    by (simp add: AddUint_def u64)
  have flt: "bytes (addFloat FormatFloat enc key f w) =
      bytes enc @ separator (bytes enc) @ key @ ''='' @
        (case f of NaN \<Rightarrow> ''NaN'' | PosInf \<Rightarrow> ''+Inf'' | NegInf \<Rightarrow> ''-Inf'' | Finite sg m e \<Rightarrow> FormatFloat f w)" for w
    by (cases f) (simp_all add: addFloat_def Let_def addKey_bytes IsNaN_def IsInf_def)
  have obj: "bytes (snd (AddObject Sprintf enc key obj)) =
      bytes enc @ separator (bytes enc) @ key @ ''='' @ Sprintf obj"
    by (simp add: AddObject_def str)
  have sep: "(separator (bytes enc) = '' '') = (bytes enc \<noteq> [] \<and> last (bytes enc) \<noteq> CHR ''{'')"
    "(separator (bytes enc) = []) = (bytes enc = [] \<or> last (bytes enc) = CHR ''{'')"
    by (auto simp: separator_def)
  show ?thesis
    using str bool byte bytes int i64 uint u64 flt [of 32] flt [of 64] obj sep
    unfolding AddFloat32_def AddFloat64_def by blast
qed

theorem Add_separator_witness:
  "bytes (AddString \<lparr>bytes = [], timeFmt = [], noName = False\<rparr> ''k'' ''v'') = ''k=v'' \<and>
   bytes (AddBool \<lparr>bytes = ''k=v'', timeFmt = [], noName = False\<rparr> ''ok'' True) = ''k=v ok=true'' \<and>
   bytes (AddBool \<lparr>bytes = ''o={'', timeFmt = [], noName = False\<rparr> ''ok'' False) = ''o={ok=false''"
proof -
  have a: "bytes (AddString \<lparr>bytes = [], timeFmt = [], noName = False\<rparr> ''k'' ''v'') = ''k=v''"
    using Add_separator [THEN conjunct1, of "\<lparr>bytes = [], timeFmt = [], noName = False\<rparr>" "''k''" "''v''"]
    by (simp add: separator_def)
  have b: "bytes (AddBool \<lparr>bytes = ''k=v'', timeFmt = [], noName = False\<rparr> ''ok'' True) = ''k=v ok=true''"
    using Add_separator [THEN conjunct2, THEN conjunct1,
        of "\<lparr>bytes = ''k=v'', timeFmt = [], noName = False\<rparr>" "''ok''" True]
    by (simp add: separator_def)
  have c: "bytes (AddBool \<lparr>bytes = ''o={'', timeFmt = [], noName = False\<rparr> ''ok'' False) = ''o={ok=false''"
    using Add_separator [THEN conjunct2, THEN conjunct1,
        of "\<lparr>bytes = ''o={'', timeFmt = [], noName = False\<rparr>" "''ok''" False]
    by (simp add: separator_def)
  from a b c show ?thesis
    by blast
qed

text \<open>
  C10. \<^verbatim>\<open>AddString\<close> escapes and quotes nothing: it appends the separator, the key bytes, \<^verbatim>\<open>=\<close>
  and the value bytes as they are. Hence a value that ends in an opening brace takes away the
  separator of the next field, and a value that contains a space and \<^verbatim>\<open>=\<close> reads as two
  fields: adding \<^verbatim>\<open>a\<close> with the value \<^verbatim>\<open>1 b=2\<close> gives the very buffer that adding \<^verbatim>\<open>a=1\<close> and
  then \<^verbatim>\<open>b=2\<close> gives, so the rendered text does not determine the fields.
\<close>

theorem AddString_verbatim:
  "bytes (AddString enc key val) = bytes enc @ separator (bytes enc) @ key @ ''='' @ val \<and>
   timeFmt (AddString enc key val) = timeFmt enc \<and>
   noName (AddString enc key val) = noName enc \<and>
   bytes (AddString (AddString enc key (val @ ''{'')) key2 val2) =
     bytes (AddString enc key (val @ ''{'')) @ key2 @ ''='' @ val2 \<and>
   bytes (AddString (truncate_enc enc) ''a'' ''1 b=2'') =
     bytes (AddString (AddString (truncate_enc enc) ''a'' ''1'') ''b'' ''2'')"
proof -
  have str: "bytes (AddString e k v) = bytes e @ separator (bytes e) @ k @ ''='' @ v"
    for e :: "'a textEncoder_scheme" and k v
    by (simp add: AddString_def Let_def addKey_bytes)
  have set: "timeFmt (AddString enc key val) = timeFmt enc \<and> noName (AddString enc key val) = noName enc"
    by (simp add: AddString_def Let_def addKey_settings)
  have brace: "separator (bytes (AddString enc key (val @ ''{''))) = []"
    by (simp add: str separator_def)
  have amb: "bytes (AddString (truncate_enc enc) ''a'' ''1 b=2'') =
      bytes (AddString (AddString (truncate_enc enc) ''a'' ''1'') ''b'' ''2'')"
    by (simp add: str truncate_enc_def separator_def)
  have nxt: "bytes (AddString (AddString enc key (val @ ''{'')) key2 val2) =
      bytes (AddString enc key (val @ ''{'')) @ key2 @ ''='' @ val2"
    by (simp only: str [of "AddString enc key (val @ ''{'')"] brace append_Nil)
  from str [of enc key val] set nxt amb show ?thesis
    by blast
qed

theorem AddString_verbatim_witness:
  "bytes (AddString \<lparr>bytes = ''a=1'', timeFmt = [], noName = False\<rparr> ''q'' ''x y={'') = ''a=1 q=x y={'' \<and>
   bytes (AddString (AddString \<lparr>bytes = ''a=1'', timeFmt = [], noName = False\<rparr> ''q'' ''x y={'') ''r'' ''z'') =
     ''a=1 q=x y={r=z''"
  using AddString_verbatim [of "\<lparr>bytes = ''a=1'', timeFmt = [], noName = False\<rparr>" "''q''" "''x y={''" "''r''" "''z''"]
    AddString_verbatim [of "\<lparr>bytes = ''a=1'', timeFmt = [], noName = False\<rparr>" "''q''" "''x y=''" "''r''" "''z''"]
  by (simp add: separator_def)

section \<open>Marshalable objects\<close>

text \<open>Every operation only appends to the buffer and leaves the settings alone.\<close>

lemma addKey_prefix: "prefix (bytes enc) (bytes (addKey enc key))"
  by (simp add: addKey_bytes)

lemma Add_prefix:
  "prefix (bytes enc) (bytes (AddString enc key s))"
  "prefix (bytes enc) (bytes (AddBool enc key b))"
  "prefix (bytes enc) (bytes (AddByte enc key v))"
  "prefix (bytes enc) (bytes (AddBytes enc key vs))"
  "prefix (bytes enc) (bytes (AddInt enc key i))"
  "prefix (bytes enc) (bytes (AddInt64 enc key i))"
  "prefix (bytes enc) (bytes (AddUint enc key u))"
  "prefix (bytes enc) (bytes (AddUint64 enc key u))"
  "prefix (bytes enc) (bytes (AddFloat32 FormatFloat enc key f))"
  "prefix (bytes enc) (bytes (AddFloat64 FormatFloat enc key f))"
  "prefix (bytes enc) (bytes (snd (AddObject Sprintf enc key obj)))"
  by (simp_all add: AddString_def AddBool_def AddByte_def AddBytes_def AddInt_def AddInt64_def
      AddUint_def AddUint64_def AddFloat32_def AddFloat64_def addFloat_def AddObject_def Let_def
      addKey_bytes hexEncode_eq AppendInt_def AppendUint_def)

lemma marshal_prefix:
  "prefix (bytes enc) (bytes (snd (AddMarshaler FormatFloat Sprintf enc key obj)))"
  "prefix (bytes enc) (bytes (snd (MarshalLog FormatFloat Sprintf obj enc)))"
  "prefix (bytes enc) (bytes (perform FormatFloat Sprintf c enc))"
  "prefix (bytes enc) (bytes (performAll FormatFloat Sprintf cs enc))"
proof (induction FormatFloat Sprintf enc key obj and FormatFloat Sprintf obj enc
    and FormatFloat Sprintf c enc and FormatFloat Sprintf cs enc
    rule: AddMarshaler_MarshalLog_perform_performAll.induct)
  case (1 FormatFloat Sprintf enc key obj)
  let ?start = "(addKey enc key)\<lparr>bytes := bytes (addKey enc key) @ ''{''\<rparr>"
  have "prefix (bytes enc) (bytes ?start)"
    by (simp add: addKey_bytes)
  also have "prefix (bytes ?start) (bytes (snd (MarshalLog FormatFloat Sprintf obj ?start)))"
    using "1.IH" by simp
  finally show ?case
    by (simp add: Let_def split: prod.splits) (metis prefix_order.dual_order.trans prefixI snd_conv)
next
  case (16 FormatFloat Sprintf c cs enc)
  then show ?case
    using prefix_order.trans by fastforce
qed (simp_all add: Add_prefix)

lemma Add_settings:
  "timeFmt (AddString enc key s) = timeFmt enc \<and> noName (AddString enc key s) = noName enc"
  "timeFmt (AddBool enc key b) = timeFmt enc \<and> noName (AddBool enc key b) = noName enc"
  "timeFmt (AddByte enc key v) = timeFmt enc \<and> noName (AddByte enc key v) = noName enc"
  "timeFmt (AddBytes enc key vs) = timeFmt enc \<and> noName (AddBytes enc key vs) = noName enc"
  "timeFmt (AddInt enc key i) = timeFmt enc \<and> noName (AddInt enc key i) = noName enc"
  "timeFmt (AddInt64 enc key i) = timeFmt enc \<and> noName (AddInt64 enc key i) = noName enc"
  "timeFmt (AddUint enc key u) = timeFmt enc \<and> noName (AddUint enc key u) = noName enc"
  "timeFmt (AddUint64 enc key u) = timeFmt enc \<and> noName (AddUint64 enc key u) = noName enc"
  "timeFmt (AddFloat32 FormatFloat enc key f) = timeFmt enc \<and>
   noName (AddFloat32 FormatFloat enc key f) = noName enc"
  "timeFmt (AddFloat64 FormatFloat enc key f) = timeFmt enc \<and>
   noName (AddFloat64 FormatFloat enc key f) = noName enc"
  "timeFmt (snd (AddObject Sprintf enc key obj)) = timeFmt enc \<and>
   noName (snd (AddObject Sprintf enc key obj)) = noName enc"
  by (simp_all add: AddString_def AddBool_def AddByte_def AddBytes_def AddInt_def AddInt64_def
      AddUint_def AddUint64_def AddFloat32_def AddFloat64_def addFloat_def AddObject_def Let_def
      addKey_settings)

lemma marshal_settings:
  "timeFmt (snd (AddMarshaler FormatFloat Sprintf enc key obj)) = timeFmt enc \<and>
   noName (snd (AddMarshaler FormatFloat Sprintf enc key obj)) = noName enc"
  "timeFmt (snd (MarshalLog FormatFloat Sprintf obj enc)) = timeFmt enc \<and>
   noName (snd (MarshalLog FormatFloat Sprintf obj enc)) = noName enc"
  "timeFmt (perform FormatFloat Sprintf c enc) = timeFmt enc \<and>
   noName (perform FormatFloat Sprintf c enc) = noName enc"
  "timeFmt (performAll FormatFloat Sprintf cs enc) = timeFmt enc \<and>
   noName (performAll FormatFloat Sprintf cs enc) = noName enc"
proof (induction FormatFloat Sprintf enc key obj and FormatFloat Sprintf obj enc
    and FormatFloat Sprintf c enc and FormatFloat Sprintf cs enc
    rule: AddMarshaler_MarshalLog_perform_performAll.induct)
  case (1 FormatFloat Sprintf enc key obj)
  then show ?case
    by (simp add: Let_def addKey_settings split: prod.splits) (metis snd_conv)
qed (simp_all add: Add_settings)

text \<open>
  C8. For every key and every marshalable object, \<^verbatim>\<open>AddMarshaler\<close> appends the separator and
  the key, then \<^verbatim>\<open>={\<close>, then what the object's \<^verbatim>\<open>MarshalLog\<close> appends to this same encoder
  (started on the buffer that ends in the opening brace), then \<^verbatim>\<open>}\<close>. It returns the error
  the object returns. This holds whether or not that error is nil: with an error the closing
  brace is appended all the same and nothing that was appended is taken back. The settings of
  the encoder are unchanged.
\<close>

theorem AddMarshaler_framing:
  "\<exists>nested.
     bytes (snd (MarshalLog FormatFloat Sprintf obj
                   ((addKey enc key)\<lparr>bytes := bytes (addKey enc key) @ ''{''\<rparr>))) =
       (bytes enc @ separator (bytes enc) @ key @ ''={'') @ nested \<and>
     bytes (snd (AddMarshaler FormatFloat Sprintf enc key obj)) =
       bytes enc @ separator (bytes enc) @ key @ ''={'' @ nested @ ''}'' \<and>
     fst (AddMarshaler FormatFloat Sprintf enc key obj) = (case obj of LogMarshaler calls err \<Rightarrow> err) \<and>
     timeFmt (snd (AddMarshaler FormatFloat Sprintf enc key obj)) = timeFmt enc \<and>
     noName (snd (AddMarshaler FormatFloat Sprintf enc key obj)) = noName enc"
proof -
  let ?start = "(addKey enc key)\<lparr>bytes := bytes (addKey enc key) @ ''{''\<rparr>"
  let ?run = "MarshalLog FormatFloat Sprintf obj ?start"
  have start: "bytes ?start = bytes enc @ separator (bytes enc) @ key @ ''={''"
    by (simp add: addKey_bytes)
  obtain nested where nested: "bytes (snd ?run) = bytes ?start @ nested"
    using marshal_prefix(2) [of ?start FormatFloat Sprintf obj] by (auto simp: prefix_def)
  have res: "AddMarshaler FormatFloat Sprintf enc key obj =
      (fst ?run, (snd ?run)\<lparr>bytes := bytes (snd ?run) @ ''}''\<rparr>)"
    by (simp add: Let_def split: prod.splits)
  have err: "fst ?run = (case obj of LogMarshaler calls err \<Rightarrow> err)"
    by (cases obj) simp
  have "bytes (snd ?run) = (bytes enc @ separator (bytes enc) @ key @ ''={'') @ nested"
    using nested start by simp
  moreover have "bytes (snd (AddMarshaler FormatFloat Sprintf enc key obj)) =
      bytes enc @ separator (bytes enc) @ key @ ''={'' @ nested @ ''}''"
    unfolding res using nested start by simp
  moreover have "fst (AddMarshaler FormatFloat Sprintf enc key obj) =
      (case obj of LogMarshaler calls err \<Rightarrow> err)"
    unfolding res using err by simp
  ultimately show ?thesis
    using marshal_settings(1) [of FormatFloat Sprintf enc key obj] by blast
qed

theorem AddMarshaler_framing_witness:
  "fst (AddMarshaler (\<lambda>f w. []) (\<lambda>obj :: unit. []) \<lparr>bytes = ''x=0'', timeFmt = [], noName = False\<rparr> ''user''
          (LogMarshaler
             [CallAddString ''name'' ''bob'',
              CallAddMarshaler ''pos'' (LogMarshaler [CallAddBool ''ok'' True] (Some (Errorf ''inner'')))]
             (Some (Errorf ''boom'')))) = Some (Errorf ''boom'') \<and>
   bytes (snd (AddMarshaler (\<lambda>f w. []) (\<lambda>obj :: unit. []) \<lparr>bytes = ''x=0'', timeFmt = [], noName = False\<rparr> ''user''
          (LogMarshaler
             [CallAddString ''name'' ''bob'',
              CallAddMarshaler ''pos'' (LogMarshaler [CallAddBool ''ok'' True] (Some (Errorf ''inner'')))]
             (Some (Errorf ''boom''))))) = ''x=0 user={name=bob pos={ok=true}}''"
proof -
  let ?enc = "\<lparr>bytes = ''x=0'', timeFmt = [], noName = False\<rparr>"
  let ?obj = "LogMarshaler
             [CallAddString ''name'' ''bob'',
              CallAddMarshaler ''pos'' (LogMarshaler [CallAddBool ''ok'' True] (Some (Errorf ''inner'')))]
             (Some (Errorf ''boom'')) :: unit LogMarshaler"
  let ?FF = "\<lambda>(f :: float) (w :: nat). [] :: string"
  let ?Sp = "\<lambda>obj :: unit. [] :: string"
  obtain nested where
    run: "bytes (snd (MarshalLog ?FF ?Sp ?obj ((addKey ?enc ''user'')\<lparr>bytes := bytes (addKey ?enc ''user'') @ ''{''\<rparr>))) =
       (bytes ?enc @ separator (bytes ?enc) @ ''user'' @ ''={'') @ nested"
    and res: "bytes (snd (AddMarshaler ?FF ?Sp ?enc ''user'' ?obj)) =
       bytes ?enc @ separator (bytes ?enc) @ ''user'' @ ''={'' @ nested @ ''}''"
    and err: "fst (AddMarshaler ?FF ?Sp ?enc ''user'' ?obj) = (case ?obj of LogMarshaler calls err \<Rightarrow> err)"
    using AddMarshaler_framing [of ?FF ?Sp ?obj ?enc "''user''"] by blast
  have "bytes (snd (MarshalLog ?FF ?Sp ?obj ((addKey ?enc ''user'')\<lparr>bytes := bytes (addKey ?enc ''user'') @ ''{''\<rparr>))) =
      ''x=0 user={name=bob pos={ok=true}''"
    by (simp add: addKey_def AddString_def AddBool_def Let_def)
  with run have "nested = ''name=bob pos={ok=true}''"
    by (simp add: separator_def)
  with res err show ?thesis
    by (simp add: separator_def)
qed

section \<open>Writing an entry\<close>

lemma update_simps [simp]:
  "textHeap (update a f s) = (textHeap s)(a := f s)"
  "textPool (update a f s) = textPool s"
  "textNext (update a f s) = textNext s"
  "ansiHeap (update a f s) = ansiHeap s"
  by (simp_all add: update_def)

lemma Free_simps [simp]:
  "textHeap (Free s a) = textHeap s"
  "textPool (Free s a) = a # textPool s"
  "textNext (Free s a) = textNext s"
  "ansiHeap (Free s a) = ansiHeap s"
  by (simp_all add: Free_def textPool_Put_def)

lemma textPool_Get_owned:
  assumes "owned s e" and "textPool_Get s = (f, s1)"
  shows "f \<noteq> e" and "textHeap s1 e = textHeap s e" and "e < textNext s1" and "e \<notin> set (textPool s1)"
  using assms by (auto simp: owned_def textPool_Get_def split: list.splits)

lemma textPool_Get_ansiHeap: "textPool_Get s = (f, s1) \<Longrightarrow> ansiHeap s1 = ansiHeap s"
  by (auto simp: textPool_Get_def split: list.splits)

lemma addLevel_bytes:
  "bytes (addLevel enc final lvl) =
     bytes final @ ''['' @
       (case lvl of DebugLevel \<Rightarrow> ''D'' | InfoLevel \<Rightarrow> ''I'' | WarnLevel \<Rightarrow> ''W'' | ErrorLevel \<Rightarrow> ''E''
        | PanicLevel \<Rightarrow> ''P'' | FatalLevel \<Rightarrow> ''F'' | OtherLevel n \<Rightarrow> FormatInt n) @ '']''"
  by (cases lvl) (simp_all add: addLevel_def Let_def)

lemma addTime_bytes:
  "bytes (addTime Format enc final t) =
     bytes final @ (if timeFmt enc = [] then [] else '' '' @ Format t (timeFmt enc))"
  by (simp add: addTime_def Let_def)

lemma addName_bytes:
  "bytes (addName enc final name) = bytes final @ (if name = [] \<or> noName enc then [] else '' '' @ name)"
  by (simp add: addName_def Let_def)

lemma addMessage_bytes: "bytes (addMessage enc final msg) = bytes final @ '' '' @ msg"
  by (simp add: addMessage_def Let_def)

lemma addLevelColor_bytes: "bytes (addLevelColor enc final lvl) = bytes final @ levelColor enc lvl"
  by (cases lvl) (simp_all add: addLevelColor_def levelColor_def)

lemma clearLevelColor_bytes:
  "bytes (clearLevelColor enc final lvl) = bytes final @ (if recognized lvl then resetColor else [])"
  by (cases lvl) (simp_all add: clearLevelColor_def recognized_def)

text \<open>
  With a sink, \<^verbatim>\<open>WriteEntry\<close> hands one line to \<^verbatim>\<open>Write\<close>: the buffer of \<^verbatim>\<open>final\<close> after
  the last append. The states are named as in the definition.
\<close>

lemma WriteEntry_steps:
  assumes "textPool_Get s = (final, s1)"
    and "s6 = update final (\<lambda>s. addMessage (textHeap s enc) (textHeap s final) msg)
               (update final (\<lambda>s. addName (textHeap s enc) (textHeap s final) name)
                 (update final (\<lambda>s. addTime Format (textHeap s enc) (textHeap s final) t)
                   (update final (\<lambda>s. addLevel (textHeap s enc) (textHeap s final) lvl)
                     (update final (\<lambda>s. truncate_enc (textHeap s final)) s1))))"
    and "s7 = (if length (bytes (textHeap s6 enc)) > 0 then
                 update final
                   (\<lambda>s. (textHeap s final)\<lparr>bytes := bytes (textHeap s final) @ bytes (textHeap s enc)\<rparr>)
                   (update final (\<lambda>s. (textHeap s final)\<lparr>bytes := bytes (textHeap s final) @ '' ''\<rparr>) s6)
               else s6)"
    and "s8 = update final (\<lambda>s. (textHeap s final)\<lparr>bytes := bytes (textHeap s final) @ [CHR 0x0A]\<rparr>) s7"
    and "line = bytes (textHeap s8 final)"
  shows "WriteEntry Format s enc (Some w) name msg lvl t = (writeResult (w line) line, [line], Free s8 final)"
proof -
  obtain n err where wl: "w line = (n, err)"
    by force
  show ?thesis
    unfolding WriteEntry_def option.case assms(1) prod.case Let_def
    unfolding assms(2) [symmetric] assms(3) [symmetric] assms(4) [symmetric] assms(5) [symmetric] wl
    by (simp add: writeResult_def split: option.splits)
qed

lemma ansiEncoder_WriteEntry_steps:
  assumes "textPool_Get s = (final, s1)"
    and "s7 = update final (\<lambda>s. addMessage (ansiHeap s enc) (textHeap s final) msg)
               (update final (\<lambda>s. addName (ansiHeap s enc) (textHeap s final) name)
                 (update final (\<lambda>s. addTime Format (ansiHeap s enc) (textHeap s final) t)
                   (update final (\<lambda>s. addLevel (ansiHeap s enc) (textHeap s final) lvl)
                     (update final (\<lambda>s. addLevelColor (ansiHeap s enc) (textHeap s final) lvl)
                       (update final (\<lambda>s. truncate_enc (textHeap s final)) s1)))))"
    and "s8 = (if length (bytes (ansiHeap s7 enc)) > 0 then
                 update final
                   (\<lambda>s. (textHeap s final)\<lparr>bytes := bytes (textHeap s final) @ bytes (ansiHeap s enc)\<rparr>)
                   (update final (\<lambda>s. (textHeap s final)\<lparr>bytes := bytes (textHeap s final) @ '' ''\<rparr>) s7)
               else s7)"
    and "s10 = update final (\<lambda>s. (textHeap s final)\<lparr>bytes := bytes (textHeap s final) @ [CHR 0x0A]\<rparr>)
                (update final (\<lambda>s. clearLevelColor (ansiHeap s enc) (textHeap s final) lvl) s8)"
    and "line = bytes (textHeap s10 final)"
  shows "ansiEncoder_WriteEntry Format s enc (Some w) name msg lvl t =
           (writeResult (w line) line, [line], Free s10 final)"
proof -
  obtain n err where wl: "w line = (n, err)"
    by force
  show ?thesis
    unfolding ansiEncoder_WriteEntry_def option.case assms(1) prod.case Let_def
    unfolding assms(2) [symmetric] assms(3) [symmetric] assms(4) [symmetric] assms(5) [symmetric] wl
    by (simp add: writeResult_def split: option.splits)
qed

text \<open>
  The line of the text encoder, for an encoder its caller owns: \<^verbatim>\<open>final\<close> is then another
  object, and the encoder is left as it was.
\<close>

lemma WriteEntry_line:
  assumes "owned s e"
  shows "\<exists>s'. WriteEntry Format s e (Some w) name msg lvl t =
           (writeResult (w (entryBody Format (textHeap s e) name msg lvl t @ [CHR 0x0A]))
              (entryBody Format (textHeap s e) name msg lvl t @ [CHR 0x0A]),
            [entryBody Format (textHeap s e) name msg lvl t @ [CHR 0x0A]], s') \<and>
         textHeap s' e = textHeap s e \<and> owned s' e \<and> ansiHeap s' = ansiHeap s"
proof -
  obtain final s1 where g: "textPool_Get s = (final, s1)"
    by force
  note o = textPool_Get_owned [OF assms g]
  define s6 where "s6 = update final (\<lambda>s. addMessage (textHeap s e) (textHeap s final) msg)
               (update final (\<lambda>s. addName (textHeap s e) (textHeap s final) name)
                 (update final (\<lambda>s. addTime Format (textHeap s e) (textHeap s final) t)
                   (update final (\<lambda>s. addLevel (textHeap s e) (textHeap s final) lvl)
                     (update final (\<lambda>s. truncate_enc (textHeap s final)) s1))))"
  define s7 where "s7 = (if length (bytes (textHeap s6 e)) > 0 then
                 update final
                   (\<lambda>s. (textHeap s final)\<lparr>bytes := bytes (textHeap s final) @ bytes (textHeap s e)\<rparr>)
                   (update final (\<lambda>s. (textHeap s final)\<lparr>bytes := bytes (textHeap s final) @ '' ''\<rparr>) s6)
               else s6)"
  define s8 where "s8 = update final (\<lambda>s. (textHeap s final)\<lparr>bytes := bytes (textHeap s final) @ [CHR 0x0A]\<rparr>) s7"
  define line where "line = bytes (textHeap s8 final)"
  have res: "WriteEntry Format s e (Some w) name msg lvl t = (writeResult (w line) line, [line], Free s8 final)"
    by (rule WriteEntry_steps [OF g s6_def s7_def s8_def line_def])
  have e6: "textHeap s6 e = textHeap s e" and p6: "textPool s6 = textPool s1" "textNext s6 = textNext s1"
    using o by (simp_all add: s6_def)
  have b6: "bytes (textHeap s6 final) =
      ''['' @ (case lvl of DebugLevel \<Rightarrow> ''D'' | InfoLevel \<Rightarrow> ''I'' | WarnLevel \<Rightarrow> ''W'' | ErrorLevel \<Rightarrow> ''E''
              | PanicLevel \<Rightarrow> ''P'' | FatalLevel \<Rightarrow> ''F'' | OtherLevel n \<Rightarrow> FormatInt n) @ '']'' @
      (if timeFmt (textHeap s e) = [] then [] else '' '' @ Format t (timeFmt (textHeap s e))) @
      (if name = [] \<or> noName (textHeap s e) then [] else '' '' @ name) @ '' '' @ msg"
    using o by (simp add: s6_def addMessage_bytes addName_bytes addTime_bytes addLevel_bytes truncate_enc_def)
  have e7: "textHeap s7 e = textHeap s e" and p7: "textPool s7 = textPool s1" "textNext s7 = textNext s1"
    using o e6 p6 by (simp_all add: s7_def)
  have b7: "bytes (textHeap s7 final) =
      bytes (textHeap s6 final) @ (if bytes (textHeap s e) = [] then [] else '' '' @ bytes (textHeap s e))"
    using o e6 by (simp add: s7_def)
  have e8: "textHeap s8 e = textHeap s e" and p8: "textPool s8 = textPool s1" "textNext s8 = textNext s1"
    using o e7 p7 by (simp_all add: s8_def)
  have "line = entryBody Format (textHeap s e) name msg lvl t @ [CHR 0x0A]"
    by (simp add: line_def s8_def b7 b6 entryBody_def)
  moreover have "owned (Free s8 final) e"
    using o p8 by (simp add: owned_def)
  moreover have "ansiHeap (Free s8 final) = ansiHeap s"
    using textPool_Get_ansiHeap [OF g] by (simp add: s8_def s7_def s6_def)
  ultimately show ?thesis
    using res e8 by simp
qed

text \<open>The line of the ANSI encoder, whose objects are in a store of their own.\<close>

lemma ansiEncoder_WriteEntry_line:
  "\<exists>s'. ansiEncoder_WriteEntry Format s a (Some w) name msg lvl t =
          (writeResult
             (w (levelColor (ansiHeap s a) lvl @ entryBody Format (ansiHeap s a) name msg lvl t @
                 (if recognized lvl then resetColor else []) @ [CHR 0x0A]))
             (levelColor (ansiHeap s a) lvl @ entryBody Format (ansiHeap s a) name msg lvl t @
                (if recognized lvl then resetColor else []) @ [CHR 0x0A]),
           [levelColor (ansiHeap s a) lvl @ entryBody Format (ansiHeap s a) name msg lvl t @
              (if recognized lvl then resetColor else []) @ [CHR 0x0A]], s') \<and>
        ansiHeap s' = ansiHeap s"
proof -
  obtain final s1 where g: "textPool_Get s = (final, s1)"
    by force
  note a1 = textPool_Get_ansiHeap [OF g]
  define s7 where "s7 = update final (\<lambda>s. addMessage (ansiHeap s a) (textHeap s final) msg)
               (update final (\<lambda>s. addName (ansiHeap s a) (textHeap s final) name)
                 (update final (\<lambda>s. addTime Format (ansiHeap s a) (textHeap s final) t)
                   (update final (\<lambda>s. addLevel (ansiHeap s a) (textHeap s final) lvl)
                     (update final (\<lambda>s. addLevelColor (ansiHeap s a) (textHeap s final) lvl)
                       (update final (\<lambda>s. truncate_enc (textHeap s final)) s1)))))"
  define s8 where "s8 = (if length (bytes (ansiHeap s7 a)) > 0 then
                 update final
                   (\<lambda>s. (textHeap s final)\<lparr>bytes := bytes (textHeap s final) @ bytes (ansiHeap s a)\<rparr>)
                   (update final (\<lambda>s. (textHeap s final)\<lparr>bytes := bytes (textHeap s final) @ '' ''\<rparr>) s7)
               else s7)"
  define s10 where "s10 = update final (\<lambda>s. (textHeap s final)\<lparr>bytes := bytes (textHeap s final) @ [CHR 0x0A]\<rparr>)
                (update final (\<lambda>s. clearLevelColor (ansiHeap s a) (textHeap s final) lvl) s8)"
  define line where "line = bytes (textHeap s10 final)"
  have res: "ansiEncoder_WriteEntry Format s a (Some w) name msg lvl t =
      (writeResult (w line) line, [line], Free s10 final)"
    by (rule ansiEncoder_WriteEntry_steps [OF g s7_def s8_def s10_def line_def])
  have a7: "ansiHeap s7 = ansiHeap s"
    using a1 by (simp add: s7_def)
  have b7: "bytes (textHeap s7 final) =
      levelColor (ansiHeap s a) lvl @
      ''['' @ (case lvl of DebugLevel \<Rightarrow> ''D'' | InfoLevel \<Rightarrow> ''I'' | WarnLevel \<Rightarrow> ''W'' | ErrorLevel \<Rightarrow> ''E''
              | PanicLevel \<Rightarrow> ''P'' | FatalLevel \<Rightarrow> ''F'' | OtherLevel n \<Rightarrow> FormatInt n) @ '']'' @
      (if timeFmt (ansiHeap s a) = [] then [] else '' '' @ Format t (timeFmt (ansiHeap s a))) @
      (if name = [] \<or> noName (ansiHeap s a) then [] else '' '' @ name) @ '' '' @ msg"
    using a1 by (simp add: s7_def addMessage_bytes addName_bytes addTime_bytes addLevel_bytes
        addLevelColor_bytes truncate_enc_def)
  have a8: "ansiHeap s8 = ansiHeap s"
    using a7 by (simp add: s8_def)
  have b8: "bytes (textHeap s8 final) =
      bytes (textHeap s7 final) @ (if bytes (ansiHeap s a) = [] then [] else '' '' @ bytes (ansiHeap s a))"
    using a7 by (simp add: s8_def)
  have "line = levelColor (ansiHeap s a) lvl @ entryBody Format (ansiHeap s a) name msg lvl t @
      (if recognized lvl then resetColor else []) @ [CHR 0x0A]"
    using a8 by (simp add: line_def s10_def clearLevelColor_bytes b8 b7 entryBody_def)
  moreover have "ansiHeap (Free s10 final) = ansiHeap s"
    using a8 by (simp add: s10_def)
  ultimately show ?thesis
    using res by simp
qed

section \<open>The entries of the specification's scenarios\<close>

lemma timeFormat_newYear2021: "timeFormat newYear2021 RFC3339 = ''2021-01-01T00:00:00Z''"
  by (simp add: RFC3339_def newYear2021_def pad2_def pad4_def digit_def zoneText_def)

lemma FormatInt_3: "FormatInt (sint (scast (3 :: 64 word) :: 64 word)) = ''3''"
  by (simp add: FormatInt_def FormatUint.simps digit_def)

lemma NewTextEncoder_initial:
  "NewTextEncoder initial [] = (0, update 0 (\<lambda>s. \<lparr>bytes = [], timeFmt = RFC3339, noName = False\<rparr>)
     (initial\<lparr>textNext := 1\<rparr>))"
  by (simp add: NewTextEncoder_def initial_def textPool_Get_def Let_def textPool_New_def truncate_enc_def
      update_def)

text \<open>
  C1. Let a text encoder, owned by its caller, have the default RFC 3339 time format and print
  names. For level Info, name \<^verbatim>\<open>svc\<close>, message \<^verbatim>\<open>started\<close> and the timestamp
  2021-01-01T00:00:00Z, \<^verbatim>\<open>WriteEntry\<close> passes to the sink exactly the line
  \<^verbatim>\<open>[I] 2021-01-01T00:00:00Z svc started\<close> and a newline when the buffer of accumulated fields
  is empty, and that line with \<^verbatim>\<open> count=3\<close> before the newline when the buffer holds the one
  field \<^verbatim>\<open>count=3\<close>.
\<close>

theorem WriteEntry_scenario:
  assumes "owned s e" and "timeFmt (textHeap s e) = RFC3339" and "\<not> noName (textHeap s e)"
  shows "(bytes (textHeap s e) = [] \<longrightarrow>
            fst (snd (WriteEntry timeFormat s e (Some w) ''svc'' ''started'' InfoLevel newYear2021)) =
              [''[I] 2021-01-01T00:00:00Z svc started'' @ [CHR 0x0A]]) \<and>
         (bytes (textHeap s e) = ''count=3'' \<longrightarrow>
            fst (snd (WriteEntry timeFormat s e (Some w) ''svc'' ''started'' InfoLevel newYear2021)) =
              [''[I] 2021-01-01T00:00:00Z svc started count=3'' @ [CHR 0x0A]])"
proof -
  obtain s' where "WriteEntry timeFormat s e (Some w) ''svc'' ''started'' InfoLevel newYear2021 =
      (writeResult (w (entryBody timeFormat (textHeap s e) ''svc'' ''started'' InfoLevel newYear2021 @ [CHR 0x0A]))
         (entryBody timeFormat (textHeap s e) ''svc'' ''started'' InfoLevel newYear2021 @ [CHR 0x0A]),
       [entryBody timeFormat (textHeap s e) ''svc'' ''started'' InfoLevel newYear2021 @ [CHR 0x0A]], s')"
    using WriteEntry_line [OF assms(1), where Format = timeFormat and w = w and name = "''svc''"
        and msg = "''started''" and lvl = InfoLevel and t = newYear2021]
    by blast
  then have "fst (snd (WriteEntry timeFormat s e (Some w) ''svc'' ''started'' InfoLevel newYear2021)) =
      [entryBody timeFormat (textHeap s e) ''svc'' ''started'' InfoLevel newYear2021 @ [CHR 0x0A]]"
    by simp
  moreover have "entryBody timeFormat (textHeap s e) ''svc'' ''started'' InfoLevel newYear2021 =
      ''[I] 2021-01-01T00:00:00Z svc started'' @ (if bytes (textHeap s e) = [] then [] else '' '' @ bytes (textHeap s e))"
    using assms(2,3) by (simp add: entryBody_def timeFormat_newYear2021) (simp add: RFC3339_def)
  ultimately show ?thesis
    by simp
qed

theorem WriteEntry_scenario_witness:
  "owned (snd (NewTextEncoder initial [])) (fst (NewTextEncoder initial [])) \<and>
   fst (snd (WriteEntry timeFormat (snd (NewTextEncoder initial [])) (fst (NewTextEncoder initial []))
               (Some exactSink) ''svc'' ''started'' InfoLevel newYear2021)) =
     [''[I] 2021-01-01T00:00:00Z svc started'' @ [CHR 0x0A]] \<and>
   fst (snd (WriteEntry timeFormat
               (update (fst (NewTextEncoder initial []))
                  (\<lambda>s. AddInt (textHeap s (fst (NewTextEncoder initial []))) ''count'' 3)
                  (snd (NewTextEncoder initial [])))
               (fst (NewTextEncoder initial []))
               (Some exactSink) ''svc'' ''started'' InfoLevel newYear2021)) =
     [''[I] 2021-01-01T00:00:00Z svc started count=3'' @ [CHR 0x0A]]"
proof -
  let ?e = "fst (NewTextEncoder initial [])"
  let ?s1 = "snd (NewTextEncoder initial [])"
  let ?s2 = "update ?e (\<lambda>s. AddInt (textHeap s ?e) ''count'' 3) ?s1"
  have v1: "textHeap ?s1 ?e = \<lparr>bytes = [], timeFmt = RFC3339, noName = False\<rparr>"
    by (simp add: NewTextEncoder_initial)
  have o1: "owned ?s1 ?e"
    unfolding NewTextEncoder_initial by (simp add: owned_def initial_def)
  have "bytes (AddInt \<lparr>bytes = [], timeFmt = RFC3339, noName = False\<rparr> ''count'' 3) = ''count=3''"
    using FormatInt_3 by (simp add: AddInt_def AddInt64_def addKey_def AppendInt_def Let_def)
  then have v2: "bytes (textHeap ?s2 ?e) = ''count=3''" "timeFmt (textHeap ?s2 ?e) = RFC3339"
    "\<not> noName (textHeap ?s2 ?e)"
    using Add_settings(5) [of "\<lparr>bytes = [], timeFmt = RFC3339, noName = False\<rparr>" "''count''" 3]
    by (simp_all add: v1)
  have o2: "owned ?s2 ?e"
    using o1 by (simp add: owned_def)
  have "fst (snd (WriteEntry timeFormat ?s1 ?e (Some exactSink) ''svc'' ''started'' InfoLevel newYear2021)) =
      [''[I] 2021-01-01T00:00:00Z svc started'' @ [CHR 0x0A]]"
    using WriteEntry_scenario [OF o1, of exactSink] by (simp add: v1)
  moreover have "fst (snd (WriteEntry timeFormat ?s2 ?e (Some exactSink) ''svc'' ''started'' InfoLevel newYear2021)) =
      [''[I] 2021-01-01T00:00:00Z svc started count=3'' @ [CHR 0x0A]]"
    using WriteEntry_scenario [OF o2 v2(2) v2(3), of exactSink] v2(1) by blast
  ultimately show ?thesis
    using o1 by blast
qed

section \<open>The ANSI encoder\<close>

lemma entryBody_fields:
  assumes "bytes enc = bytes enc'" and "timeFmt enc = timeFmt enc'" and "noName enc = noName enc'"
  shows "entryBody Format enc name msg lvl t = entryBody Format enc' name msg lvl t"
  using assms by (simp add: entryBody_def)

lemma levelColor_unrecognized: "\<not> recognized lvl \<Longrightarrow> levelColor enc lvl = []"
  by (cases lvl) (simp_all add: recognized_def levelColor_def)

text \<open>
  C5. For every level, the line the ANSI encoder's \<^verbatim>\<open>WriteEntry\<close> passes to the sink is the
  colour configured for the level when the level is one of the six recognized ones (nothing
  otherwise), then the body that the text encoder's \<^verbatim>\<open>WriteEntry\<close> writes for the same
  buffer and settings (level tag, time, name, message, fields), then the reset code if and only
  if the level is recognized, then a newline. With \<^verbatim>\<open>ESC[32m\<close> as the colour of Info, the
  field \<^verbatim>\<open>count=3\<close>, name \<^verbatim>\<open>svc\<close>, message \<^verbatim>\<open>started\<close> and the timestamp
  2021-01-01T00:00:00Z the line is
  \<^verbatim>\<open>ESC[32m[I] 2021-01-01T00:00:00Z svc started count=3ESC[0m\<close> and a newline.
\<close>

theorem ansiEncoder_WriteEntry_colour:
  "(owned s e \<and> bytes (textHeap s e) = bytes (ansiHeap s a) \<and>
    timeFmt (textHeap s e) = timeFmt (ansiHeap s a) \<and> noName (textHeap s e) = noName (ansiHeap s a) \<longrightarrow>
      (\<exists>body.
         fst (snd (WriteEntry Format s e (Some w) name msg lvl t)) = [body @ [CHR 0x0A]] \<and>
         fst (snd (ansiEncoder_WriteEntry Format s a (Some w') name msg lvl t)) =
           [(if recognized lvl then levelColor (ansiHeap s a) lvl else []) @ body @
            (if recognized lvl then resetColor else []) @ [CHR 0x0A]])) \<and>
   (infoColor (ansiHeap s a) = CHR 0x1B # ''[32m'' \<and> bytes (ansiHeap s a) = ''count=3'' \<and>
    timeFmt (ansiHeap s a) = RFC3339 \<and> \<not> noName (ansiHeap s a) \<longrightarrow>
      fst (snd (ansiEncoder_WriteEntry timeFormat s a (Some w') ''svc'' ''started'' InfoLevel newYear2021)) =
        [CHR 0x1B # ''[32m[I] 2021-01-01T00:00:00Z svc started count=3'' @ CHR 0x1B # ''[0m'' @ [CHR 0x0A]])"
proof -
  have ansi: "fst (snd (ansiEncoder_WriteEntry F s a (Some w') name msg lvl t)) =
      [levelColor (ansiHeap s a) lvl @ entryBody F (ansiHeap s a) name msg lvl t @
       (if recognized lvl then resetColor else []) @ [CHR 0x0A]]"
    for F :: "'b \<Rightarrow> string \<Rightarrow> string" and name msg lvl t
    using ansiEncoder_WriteEntry_line [of F s a w' name msg lvl t] by auto
  have col: "(if recognized lvl then levelColor (ansiHeap s a) lvl else []) = levelColor (ansiHeap s a) lvl"
    by (simp add: levelColor_unrecognized)
  have general: "\<exists>body.
         fst (snd (WriteEntry Format s e (Some w) name msg lvl t)) = [body @ [CHR 0x0A]] \<and>
         fst (snd (ansiEncoder_WriteEntry Format s a (Some w') name msg lvl t)) =
           [(if recognized lvl then levelColor (ansiHeap s a) lvl else []) @ body @
            (if recognized lvl then resetColor else []) @ [CHR 0x0A]]"
    if o: "owned s e" and f: "bytes (textHeap s e) = bytes (ansiHeap s a)"
      "timeFmt (textHeap s e) = timeFmt (ansiHeap s a)" "noName (textHeap s e) = noName (ansiHeap s a)"
  proof -
    have "fst (snd (WriteEntry Format s e (Some w) name msg lvl t)) =
        [entryBody Format (textHeap s e) name msg lvl t @ [CHR 0x0A]]"
      using WriteEntry_line [OF o, of Format w name msg lvl t] by auto
    then have "fst (snd (WriteEntry Format s e (Some w) name msg lvl t)) =
        [entryBody Format (ansiHeap s a) name msg lvl t @ [CHR 0x0A]]"
      using entryBody_fields [OF f] by simp
    with ansi [of Format name msg lvl t] col show ?thesis
      by simp
  qed
  have scenario: "fst (snd (ansiEncoder_WriteEntry timeFormat s a (Some w') ''svc'' ''started'' InfoLevel newYear2021)) =
        [CHR 0x1B # ''[32m[I] 2021-01-01T00:00:00Z svc started count=3'' @ CHR 0x1B # ''[0m'' @ [CHR 0x0A]]"
    if "infoColor (ansiHeap s a) = CHR 0x1B # ''[32m''" and "bytes (ansiHeap s a) = ''count=3''"
      and "timeFmt (ansiHeap s a) = RFC3339" and "\<not> noName (ansiHeap s a)"
  proof -
    have "entryBody timeFormat (ansiHeap s a) ''svc'' ''started'' InfoLevel newYear2021 =
        ''[I] 2021-01-01T00:00:00Z svc started count=3''"
      using that by (simp add: entryBody_def timeFormat_newYear2021) (simp add: RFC3339_def)
    then show ?thesis
      using that ansi [of timeFormat "''svc''" "''started''" InfoLevel newYear2021]
      by (simp add: levelColor_def recognized_def resetColor_def)
  qed
  from general scenario show ?thesis
    by blast
qed

theorem ansiEncoder_WriteEntry_colour_witness:
  "owned colourScenario 0 \<and>
   (\<exists>body.
      fst (snd (WriteEntry timeFormat colourScenario 0 (Some exactSink) ''svc'' ''started'' InfoLevel
                  newYear2021)) = [body @ [CHR 0x0A]] \<and>
      fst (snd (ansiEncoder_WriteEntry timeFormat colourScenario 0 (Some exactSink) ''svc'' ''started''
                  InfoLevel newYear2021)) =
        [CHR 0x1B # ''[32m'' @ body @ CHR 0x1B # ''[0m'' @ [CHR 0x0A]]) \<and>
   fst (snd (ansiEncoder_WriteEntry timeFormat colourScenario 0 (Some exactSink) ''svc'' ''started''
               InfoLevel newYear2021)) =
     [CHR 0x1B # ''[32m[I] 2021-01-01T00:00:00Z svc started count=3'' @ CHR 0x1B # ''[0m'' @ [CHR 0x0A]]"
proof -
  note t = ansiEncoder_WriteEntry_colour [of colourScenario 0 0 timeFormat exactSink "''svc''" "''started''"
      InfoLevel newYear2021 exactSink]
  have o: "owned colourScenario 0"
    by (simp add: owned_def colourScenario_def)
  have f: "bytes (textHeap colourScenario 0) = bytes (ansiHeap colourScenario 0)"
    "timeFmt (textHeap colourScenario 0) = timeFmt (ansiHeap colourScenario 0)"
    "noName (textHeap colourScenario 0) = noName (ansiHeap colourScenario 0)"
    by (simp_all add: colourScenario_def)
  have c: "infoColor (ansiHeap colourScenario 0) = CHR 0x1B # ''[32m''"
    "bytes (ansiHeap colourScenario 0) = ''count=3''"
    "timeFmt (ansiHeap colourScenario 0) = RFC3339" "\<not> noName (ansiHeap colourScenario 0)"
    by (simp_all add: colourScenario_def)
  have r: "recognized InfoLevel" "levelColor (ansiHeap colourScenario 0) InfoLevel = CHR 0x1B # ''[32m''"
    "resetColor = CHR 0x1B # ''[0m''"
    by (simp_all add: recognized_def levelColor_def colourScenario_def resetColor_def)
  from t o f obtain body where
    b1: "fst (snd (WriteEntry timeFormat colourScenario 0 (Some exactSink) ''svc'' ''started'' InfoLevel
                  newYear2021)) = [body @ [CHR 0x0A]]"
    and b2: "fst (snd (ansiEncoder_WriteEntry timeFormat colourScenario 0 (Some exactSink) ''svc'' ''started''
                  InfoLevel newYear2021)) =
        [(if recognized InfoLevel then levelColor (ansiHeap colourScenario 0) InfoLevel else []) @ body @
         (if recognized InfoLevel then resetColor else []) @ [CHR 0x0A]]"
    by blast
  from b2 have "fst (snd (ansiEncoder_WriteEntry timeFormat colourScenario 0 (Some exactSink) ''svc'' ''started''
                  InfoLevel newYear2021)) =
        [CHR 0x1B # ''[32m'' @ body @ CHR 0x1B # ''[0m'' @ [CHR 0x0A]]"
    by (simp add: r)
  with b1 have "\<exists>body.
      fst (snd (WriteEntry timeFormat colourScenario 0 (Some exactSink) ''svc'' ''started'' InfoLevel
                  newYear2021)) = [body @ [CHR 0x0A]] \<and>
      fst (snd (ansiEncoder_WriteEntry timeFormat colourScenario 0 (Some exactSink) ''svc'' ''started''
                  InfoLevel newYear2021)) =
        [CHR 0x1B # ''[32m'' @ body @ CHR 0x1B # ''[0m'' @ [CHR 0x0A]]"
    by blast
  moreover from t c have "fst (snd (ansiEncoder_WriteEntry timeFormat colourScenario 0 (Some exactSink) ''svc'' ''started''
               InfoLevel newYear2021)) =
     [CHR 0x1B # ''[32m[I] 2021-01-01T00:00:00Z svc started count=3'' @ CHR 0x1B # ''[0m'' @ [CHR 0x0A]]"
    by blast
  ultimately show ?thesis
    using o by blast
qed

section \<open>The caller's encoder and the result of the write\<close>

lemma WriteEntry_None [simp]:
  "WriteEntry Format s e None name msg lvl t = (Some errNilSink, [], s)"
  "ansiEncoder_WriteEntry Format s a None name msg lvl t = (Some errNilSink, [], s)"
  by (simp_all add: WriteEntry_def ansiEncoder_WriteEntry_def)

text \<open>
  C9. \<^verbatim>\<open>WriteEntry\<close> does not change the encoder it is called on. For a text encoder that its
  caller owns (it has not been released to the pool), the encoder object (buffer, time format
  and name suppression) is the same after the call as before, for every sink (nil, failing or
  not), name, message, level and time; the caller still owns it; and a second call with the
  same arguments passes the same bytes to the sink as the first. The same holds for the ANSI
  encoder, whose objects are never written by \<^verbatim>\<open>WriteEntry\<close>.
\<close>

theorem WriteEntry_frame:
  "(owned s e \<longrightarrow>
      textHeap (snd (snd (WriteEntry Format s e sink name msg lvl t))) e = textHeap s e \<and>
      owned (snd (snd (WriteEntry Format s e sink name msg lvl t))) e \<and>
      fst (snd (WriteEntry Format (snd (snd (WriteEntry Format s e sink name msg lvl t))) e sink name msg lvl t)) =
        fst (snd (WriteEntry Format s e sink name msg lvl t))) \<and>
   ansiHeap (snd (snd (ansiEncoder_WriteEntry Format s a sink name msg lvl t))) = ansiHeap s \<and>
   fst (snd (ansiEncoder_WriteEntry Format
               (snd (snd (ansiEncoder_WriteEntry Format s a sink name msg lvl t))) a sink name msg lvl t)) =
     fst (snd (ansiEncoder_WriteEntry Format s a sink name msg lvl t))"
proof (cases sink)
  case None
  then show ?thesis
    by simp
next
  case (Some w)
  have plain: "textHeap (snd (snd (WriteEntry Format s e sink name msg lvl t))) e = textHeap s e \<and>
      owned (snd (snd (WriteEntry Format s e sink name msg lvl t))) e \<and>
      fst (snd (WriteEntry Format (snd (snd (WriteEntry Format s e sink name msg lvl t))) e sink name msg lvl t)) =
        fst (snd (WriteEntry Format s e sink name msg lvl t))"
    if o: "owned s e"
  proof -
    obtain s' where 1: "WriteEntry Format s e (Some w) name msg lvl t =
           (writeResult (w (entryBody Format (textHeap s e) name msg lvl t @ [CHR 0x0A]))
              (entryBody Format (textHeap s e) name msg lvl t @ [CHR 0x0A]),
            [entryBody Format (textHeap s e) name msg lvl t @ [CHR 0x0A]], s')"
      and f: "textHeap s' e = textHeap s e" and o': "owned s' e"
      using WriteEntry_line [OF o, of Format w name msg lvl t] by blast
    obtain s'' where 2: "WriteEntry Format s' e (Some w) name msg lvl t =
           (writeResult (w (entryBody Format (textHeap s' e) name msg lvl t @ [CHR 0x0A]))
              (entryBody Format (textHeap s' e) name msg lvl t @ [CHR 0x0A]),
            [entryBody Format (textHeap s' e) name msg lvl t @ [CHR 0x0A]], s'')"
      using WriteEntry_line [OF o', of Format w name msg lvl t] by blast
    show ?thesis
      unfolding Some 1 using f o' by (simp add: 2)
  qed
  obtain s' where 1: "ansiEncoder_WriteEntry Format s a (Some w) name msg lvl t =
          (writeResult
             (w (levelColor (ansiHeap s a) lvl @ entryBody Format (ansiHeap s a) name msg lvl t @
                 (if recognized lvl then resetColor else []) @ [CHR 0x0A]))
             (levelColor (ansiHeap s a) lvl @ entryBody Format (ansiHeap s a) name msg lvl t @
                (if recognized lvl then resetColor else []) @ [CHR 0x0A]),
           [levelColor (ansiHeap s a) lvl @ entryBody Format (ansiHeap s a) name msg lvl t @
              (if recognized lvl then resetColor else []) @ [CHR 0x0A]], s')"
    and f: "ansiHeap s' = ansiHeap s"
    using ansiEncoder_WriteEntry_line [of Format s a w name msg lvl t] by blast
  obtain s'' where 2: "ansiEncoder_WriteEntry Format s' a (Some w) name msg lvl t =
          (writeResult
             (w (levelColor (ansiHeap s' a) lvl @ entryBody Format (ansiHeap s' a) name msg lvl t @
                 (if recognized lvl then resetColor else []) @ [CHR 0x0A]))
             (levelColor (ansiHeap s' a) lvl @ entryBody Format (ansiHeap s' a) name msg lvl t @
                (if recognized lvl then resetColor else []) @ [CHR 0x0A]),
           [levelColor (ansiHeap s' a) lvl @ entryBody Format (ansiHeap s' a) name msg lvl t @
              (if recognized lvl then resetColor else []) @ [CHR 0x0A]], s'')"
    using ansiEncoder_WriteEntry_line [of Format s' a w name msg lvl t] by blast
  have "ansiHeap (snd (snd (ansiEncoder_WriteEntry Format s a sink name msg lvl t))) = ansiHeap s \<and>
      fst (snd (ansiEncoder_WriteEntry Format
               (snd (snd (ansiEncoder_WriteEntry Format s a sink name msg lvl t))) a sink name msg lvl t)) =
        fst (snd (ansiEncoder_WriteEntry Format s a sink name msg lvl t))"
    unfolding Some 1 using f by (simp add: 2)
  with plain show ?thesis
    by blast
qed

theorem WriteEntry_frame_witness:
  "owned colourScenario 0 \<and>
   textHeap (snd (snd (WriteEntry timeFormat colourScenario 0 (Some failingSink) ''svc'' ''started'' InfoLevel
                         newYear2021))) 0 =
     \<lparr>bytes = ''count=3'', timeFmt = RFC3339, noName = False\<rparr> \<and>
   fst (snd (WriteEntry timeFormat
               (snd (snd (WriteEntry timeFormat colourScenario 0 (Some failingSink) ''svc'' ''started''
                            InfoLevel newYear2021)))
               0 (Some failingSink) ''svc'' ''started'' InfoLevel newYear2021)) =
     fst (snd (WriteEntry timeFormat colourScenario 0 (Some failingSink) ''svc'' ''started'' InfoLevel
                 newYear2021))"
proof -
  have o: "owned colourScenario 0"
    by (simp add: owned_def colourScenario_def)
  have v: "textHeap colourScenario 0 = \<lparr>bytes = ''count=3'', timeFmt = RFC3339, noName = False\<rparr>"
    by (simp add: colourScenario_def)
  from WriteEntry_frame [of colourScenario 0 timeFormat "Some failingSink" "''svc''" "''started''" InfoLevel
      newYear2021 0] o v
  show ?thesis
    by simp
qed

lemma WriteEntry_written:
  "\<exists>line. fst (snd (WriteEntry Format s e (Some w) name msg lvl t)) = [line] \<and>
          fst (WriteEntry Format s e (Some w) name msg lvl t) = writeResult (w line) line"
proof -
  obtain final s1 where g: "textPool_Get s = (final, s1)"
    by force
  have "\<exists>line s'. WriteEntry Format s e (Some w) name msg lvl t = (writeResult (w line) line, [line], s')"
    by (intro exI) (rule WriteEntry_steps [OF g refl refl refl refl])
  then obtain line s' where
    "WriteEntry Format s e (Some w) name msg lvl t = (writeResult (w line) line, [line], s')"
    by blast
  then show ?thesis
    by simp
qed

lemma ansiEncoder_WriteEntry_written:
  "\<exists>line. fst (snd (ansiEncoder_WriteEntry Format s a (Some w) name msg lvl t)) = [line] \<and>
          fst (ansiEncoder_WriteEntry Format s a (Some w) name msg lvl t) = writeResult (w line) line"
proof -
  obtain line s' where
    "ansiEncoder_WriteEntry Format s a (Some w) name msg lvl t = (writeResult (w line) line, [line], s')"
    using ansiEncoder_WriteEntry_line [of Format s a w name msg lvl t] by blast
  then show ?thesis
    by simp
qed

lemma scenario_line:
  "WriteEntry timeFormat (snd (NewTextEncoder initial [])) (fst (NewTextEncoder initial [])) (Some w)
     ''svc'' ''started'' InfoLevel newYear2021 =
   (writeResult (w (''[I] 2021-01-01T00:00:00Z svc started'' @ [CHR 0x0A]))
      (''[I] 2021-01-01T00:00:00Z svc started'' @ [CHR 0x0A]),
    [''[I] 2021-01-01T00:00:00Z svc started'' @ [CHR 0x0A]],
    snd (snd (WriteEntry timeFormat (snd (NewTextEncoder initial [])) (fst (NewTextEncoder initial []))
                (Some w) ''svc'' ''started'' InfoLevel newYear2021)))"
proof -
  let ?e = "fst (NewTextEncoder initial [])"
  let ?s = "snd (NewTextEncoder initial [])"
  have v: "textHeap ?s ?e = \<lparr>bytes = [], timeFmt = RFC3339, noName = False\<rparr>"
    by (simp add: NewTextEncoder_initial)
  have o: "owned ?s ?e"
    unfolding NewTextEncoder_initial by (simp add: owned_def initial_def)
  have b: "entryBody timeFormat (textHeap ?s ?e) ''svc'' ''started'' InfoLevel newYear2021 =
      ''[I] 2021-01-01T00:00:00Z svc started''"
    unfolding v by (simp add: entryBody_def timeFormat_newYear2021) (simp add: RFC3339_def)
  obtain s' where "WriteEntry timeFormat ?s ?e (Some w) ''svc'' ''started'' InfoLevel newYear2021 =
      (writeResult (w (entryBody timeFormat (textHeap ?s ?e) ''svc'' ''started'' InfoLevel newYear2021 @ [CHR 0x0A]))
         (entryBody timeFormat (textHeap ?s ?e) ''svc'' ''started'' InfoLevel newYear2021 @ [CHR 0x0A]),
       [entryBody timeFormat (textHeap ?s ?e) ''svc'' ''started'' InfoLevel newYear2021 @ [CHR 0x0A]], s')"
    using WriteEntry_line [OF o, of timeFormat w "''svc''" "''started''" InfoLevel newYear2021] by blast
  then show ?thesis
    unfolding b by simp
qed

text \<open>
  C4, as the claim states it, fails: a sink that reports no error and a count greater than the
  length of the line makes \<^verbatim>\<open>WriteEntry\<close> return the incomplete-write error, although the sink
  is not nil, its write returned no error, and it did not report fewer bytes than the line has.
\<close>

theorem WriteEntry_over_report_counterexample:
  "fst (WriteEntry timeFormat (snd (NewTextEncoder initial [])) (fst (NewTextEncoder initial []))
          (Some overReportingSink) ''svc'' ''started'' InfoLevel newYear2021) =
     Some (Errorf ''incomplete write: only wrote 38 of 37 bytes'') \<and>
   fst (snd (WriteEntry timeFormat (snd (NewTextEncoder initial [])) (fst (NewTextEncoder initial []))
               (Some overReportingSink) ''svc'' ''started'' InfoLevel newYear2021)) =
     [''[I] 2021-01-01T00:00:00Z svc started'' @ [CHR 0x0A]] \<and>
   overReportingSink (''[I] 2021-01-01T00:00:00Z svc started'' @ [CHR 0x0A]) = (38, None) \<and>
   \<not> (38 :: int) < int (length (''[I] 2021-01-01T00:00:00Z svc started'' @ [CHR 0x0A]))"
proof -
  have s: "overReportingSink (''[I] 2021-01-01T00:00:00Z svc started'' @ [CHR 0x0A]) = (38, None)"
    by (simp add: overReportingSink_def)
  have f: "FormatInt 38 = ''38''" "FormatInt 37 = ''37''"
    by (simp_all add: FormatInt_def FormatUint.simps digit_def)
  have r: "writeResult (38, None) (''[I] 2021-01-01T00:00:00Z svc started'' @ [CHR 0x0A]) =
      Some (Errorf ''incomplete write: only wrote 38 of 37 bytes'')"
    by (simp add: writeResult_def incompleteWrite_def f)
  have "fst (WriteEntry timeFormat (snd (NewTextEncoder initial [])) (fst (NewTextEncoder initial []))
          (Some overReportingSink) ''svc'' ''started'' InfoLevel newYear2021) =
     Some (Errorf ''incomplete write: only wrote 38 of 37 bytes'')"
    by (subst scenario_line) (simp only: fst_conv s r)
  moreover have "fst (snd (WriteEntry timeFormat (snd (NewTextEncoder initial [])) (fst (NewTextEncoder initial []))
               (Some overReportingSink) ''svc'' ''started'' InfoLevel newYear2021)) =
     [''[I] 2021-01-01T00:00:00Z svc started'' @ [CHR 0x0A]]"
    by (subst scenario_line) (simp only: fst_conv snd_conv)
  moreover have "\<not> (38 :: int) < int (length (''[I] 2021-01-01T00:00:00Z svc started'' @ [CHR 0x0A]))"
    by simp
  ultimately show ?thesis
    using s by blast
qed

text \<open>
  C4, amended. On either encoder, \<^verbatim>\<open>WriteEntry\<close> with a nil sink returns the nil-sink error,
  writes nothing and leaves the state as it is. With a sink it passes one line to the sink's
  \<^verbatim>\<open>Write\<close>; it returns the error of that write if there is one, unchanged; if there is none
  and the reported count differs from the length of the line (it is smaller or greater), it
  returns the incomplete-write error, whose message names the reported count and the length;
  otherwise it returns no error. So it fails if and only if the sink is nil, or the write
  returns an error, or the write reports a count other than the length of the line.
\<close>

theorem WriteEntry_errors:
  "WriteEntry Format s e None name msg lvl t = (Some errNilSink, [], s) \<and>
   ansiEncoder_WriteEntry Format s a None name msg lvl t = (Some errNilSink, [], s) \<and>
   (\<exists>line. fst (snd (WriteEntry Format s e (Some w) name msg lvl t)) = [line] \<and>
           fst (WriteEntry Format s e (Some w) name msg lvl t) = writeResult (w line) line) \<and>
   (\<exists>line. fst (snd (ansiEncoder_WriteEntry Format s a (Some w) name msg lvl t)) = [line] \<and>
           fst (ansiEncoder_WriteEntry Format s a (Some w) name msg lvl t) = writeResult (w line) line) \<and>
   writeResult (n, Some err) ln = Some err \<and>
   writeResult (n, None) ln =
     (if n = int (length ln) then None else Some (incompleteWrite n (int (length ln)))) \<and>
   (writeResult r ln \<noteq> None) = (snd r \<noteq> None \<or> fst r \<noteq> int (length ln)) \<and>
   incompleteWrite n m =
     Errorf (''incomplete write: only wrote '' @ FormatInt n @ '' of '' @ FormatInt m @ '' bytes'')"
proof -
  have "(writeResult r ln \<noteq> None) = (snd r \<noteq> None \<or> fst r \<noteq> int (length ln))"
    by (simp add: writeResult_def split: option.splits)
  then show ?thesis
    using WriteEntry_written [of Format s e w name msg lvl t]
      ansiEncoder_WriteEntry_written [of Format s a w name msg lvl t]
    by (simp add: writeResult_def incompleteWrite_def)
qed

theorem WriteEntry_errors_witness:
  "WriteEntry timeFormat colourScenario 0 None ''svc'' ''started'' InfoLevel newYear2021 =
     (Some errNilSink, [], colourScenario) \<and>
   writeResult (failingSink ''line'') ''line'' = Some (Errorf ''disk full'') \<and>
   writeResult (shortSink ''line'') ''line'' =
     Some (Errorf ''incomplete write: only wrote 3 of 4 bytes'') \<and>
   writeResult (overReportingSink ''line'') ''line'' =
     Some (Errorf ''incomplete write: only wrote 5 of 4 bytes'') \<and>
   writeResult (exactSink ''line'') ''line'' = None"
proof -
  note t = WriteEntry_errors [of timeFormat colourScenario 0 "''svc''" "''started''" InfoLevel newYear2021 0]
  have n: "WriteEntry timeFormat colourScenario 0 None ''svc'' ''started'' InfoLevel newYear2021 =
     (Some errNilSink, [], colourScenario)"
    using t by blast
  have a: "writeResult (failingSink ''line'') ''line'' = Some (Errorf ''disk full'')"
    using t [of _ 0 "Errorf ''disk full''" "''line''"] by (simp add: failingSink_def)
  have m: "incompleteWrite k 4 =
      Errorf (''incomplete write: only wrote '' @ FormatInt k @ '' of '' @ FormatInt 4 @ '' bytes'')" for k
    using t [of _ k _ _ _ 4] by blast
  have b: "writeResult (shortSink ''line'') ''line'' =
     Some (Errorf ''incomplete write: only wrote 3 of 4 bytes'')"
    using t [of _ 3 _ "''line''"] m [of 3]
    by (simp add: shortSink_def FormatInt_def FormatUint.simps digit_def)
  have c: "writeResult (overReportingSink ''line'') ''line'' =
     Some (Errorf ''incomplete write: only wrote 5 of 4 bytes'')"
    using t [of _ 5 _ "''line''"] m [of 5]
    by (simp add: overReportingSink_def FormatInt_def FormatUint.simps digit_def)
  have d: "writeResult (exactSink ''line'') ''line'' = None"
    using t [of _ 4 _ "''line''"] by (simp add: exactSink_def)
  from n a b c d show ?thesis
    by blast
qed

section \<open>Clone\<close>

text \<open>
  What \<^verbatim>\<open>Clone\<close> does for an encoder its caller owns: the clone is another object, it has the
  buffer and the time format of the source, the source is unchanged, and a later write to the
  clone does not reach the source. Its name suppression is that of the object the pool handed
  out, which \<^verbatim>\<open>Clone\<close> never assigns.
\<close>

lemma Clone_owned:
  assumes "owned s e"
  shows "fst (Clone s e) \<noteq> e"
    and "bytes (textHeap (snd (Clone s e)) (fst (Clone s e))) = bytes (textHeap s e)"
    and "timeFmt (textHeap (snd (Clone s e)) (fst (Clone s e))) = timeFmt (textHeap s e)"
    and "textHeap (snd (Clone s e)) e = textHeap s e"
    and "textHeap (update (fst (Clone s e)) f (snd (Clone s e))) e = textHeap s e"
    and "noName (textHeap (snd (Clone s e)) (fst (Clone s e))) =
           (case textPool s of [] \<Rightarrow> False | p # ps \<Rightarrow> noName (textHeap s p))"
proof -
  obtain c s1 where g: "textPool_Get s = (c, s1)"
    by force
  note o = textPool_Get_owned [OF assms g]
  have n: "noName (textHeap s1 c) = (case textPool s of [] \<Rightarrow> False | p # ps \<Rightarrow> noName (textHeap s p))"
    using g by (auto simp: textPool_Get_def textPool_New_def split: list.splits)
  show "fst (Clone s e) \<noteq> e"
    and "bytes (textHeap (snd (Clone s e)) (fst (Clone s e))) = bytes (textHeap s e)"
    and "timeFmt (textHeap (snd (Clone s e)) (fst (Clone s e))) = timeFmt (textHeap s e)"
    and "textHeap (snd (Clone s e)) e = textHeap s e"
    and "textHeap (update (fst (Clone s e)) f (snd (Clone s e))) e = textHeap s e"
    and "noName (textHeap (snd (Clone s e)) (fst (Clone s e))) =
           (case textPool s of [] \<Rightarrow> False | p # ps \<Rightarrow> noName (textHeap s p))"
    using o n by (simp_all add: Clone_def g Let_def truncate_enc_def)
qed

lemma NewTextEncoder_TextNoName:
  "NewTextEncoder initial [TextNoName] =
     (0, update 0 (\<lambda>s. \<lparr>bytes = [], timeFmt = RFC3339, noName = True\<rparr>) (initial\<lparr>textNext := 1\<rparr>))"
  by (simp add: NewTextEncoder_def initial_def textPool_Get_def Let_def textPool_New_def truncate_enc_def
      update_def TextNoName_def)

lemma Clone_TextNoName:
  "Clone (snd (NewTextEncoder initial [TextNoName])) (fst (NewTextEncoder initial [TextNoName])) =
     (1, update 1 (\<lambda>s. \<lparr>bytes = [], timeFmt = RFC3339, noName = False\<rparr>)
           (update 0 (\<lambda>s. \<lparr>bytes = [], timeFmt = RFC3339, noName = True\<rparr>) (initial\<lparr>textNext := 2\<rparr>)))"
  unfolding NewTextEncoder_TextNoName
  by (simp add: Clone_def initial_def textPool_Get_def Let_def textPool_New_def truncate_enc_def update_def)

text \<open>
  C3, at the failing input. An encoder is made with the option \<^verbatim>\<open>TextNoName\<close> in a program
  that has released no encoder, and cloned. The source suppresses names, the clone does not:
  for the same entry the source writes \<^verbatim>\<open>[I] 2021-01-01T00:00:00Z started\<close> and the clone
  \<^verbatim>\<open>[I] 2021-01-01T00:00:00Z svc started\<close>. The buffer and the time format are copied.
\<close>

theorem Clone_does_not_copy_noName:
  "noName (textHeap (snd (NewTextEncoder initial [TextNoName])) (fst (NewTextEncoder initial [TextNoName]))) \<and>
   \<not> noName (textHeap
             (snd (Clone (snd (NewTextEncoder initial [TextNoName])) (fst (NewTextEncoder initial [TextNoName]))))
             (fst (Clone (snd (NewTextEncoder initial [TextNoName])) (fst (NewTextEncoder initial [TextNoName]))))) \<and>
   timeFmt (textHeap
             (snd (Clone (snd (NewTextEncoder initial [TextNoName])) (fst (NewTextEncoder initial [TextNoName]))))
             (fst (Clone (snd (NewTextEncoder initial [TextNoName])) (fst (NewTextEncoder initial [TextNoName]))))) =
     RFC3339 \<and>
   fst (snd (WriteEntry timeFormat
               (snd (Clone (snd (NewTextEncoder initial [TextNoName])) (fst (NewTextEncoder initial [TextNoName]))))
               (fst (NewTextEncoder initial [TextNoName]))
               (Some exactSink) ''svc'' ''started'' InfoLevel newYear2021)) =
     [''[I] 2021-01-01T00:00:00Z started'' @ [CHR 0x0A]] \<and>
   fst (snd (WriteEntry timeFormat
               (snd (Clone (snd (NewTextEncoder initial [TextNoName])) (fst (NewTextEncoder initial [TextNoName]))))
               (fst (Clone (snd (NewTextEncoder initial [TextNoName])) (fst (NewTextEncoder initial [TextNoName]))))
               (Some exactSink) ''svc'' ''started'' InfoLevel newYear2021)) =
     [''[I] 2021-01-01T00:00:00Z svc started'' @ [CHR 0x0A]]"
proof -
  let ?s1 = "snd (NewTextEncoder initial [TextNoName])"
  let ?s2 = "snd (Clone ?s1 0)"
  have e: "fst (NewTextEncoder initial [TextNoName]) = 0"
    by (simp add: NewTextEncoder_TextNoName)
  note cl = Clone_TextNoName [unfolded e]
  have c: "fst (Clone ?s1 0) = 1"
    by (simp add: cl)
  have ve1: "noName (textHeap ?s1 0)"
    by (simp add: NewTextEncoder_TextNoName)
  have ve: "textHeap ?s2 0 = \<lparr>bytes = [], timeFmt = RFC3339, noName = True\<rparr>"
    and vc: "textHeap ?s2 1 = \<lparr>bytes = [], timeFmt = RFC3339, noName = False\<rparr>"
    and o: "owned ?s2 0" "owned ?s2 1"
    unfolding cl by (simp_all add: owned_def initial_def)
  have be: "entryBody timeFormat (textHeap ?s2 0) ''svc'' ''started'' InfoLevel newYear2021 =
      ''[I] 2021-01-01T00:00:00Z started''"
    unfolding ve by (simp add: entryBody_def timeFormat_newYear2021) (simp add: RFC3339_def)
  have bc: "entryBody timeFormat (textHeap ?s2 1) ''svc'' ''started'' InfoLevel newYear2021 =
      ''[I] 2021-01-01T00:00:00Z svc started''"
    unfolding vc by (simp add: entryBody_def timeFormat_newYear2021) (simp add: RFC3339_def)
  have we: "fst (snd (WriteEntry timeFormat ?s2 0 (Some exactSink) ''svc'' ''started'' InfoLevel newYear2021)) =
      [''[I] 2021-01-01T00:00:00Z started'' @ [CHR 0x0A]]"
    using WriteEntry_line [OF o(1), of timeFormat exactSink "''svc''" "''started''" InfoLevel newYear2021]
    unfolding be by auto
  have wc: "fst (snd (WriteEntry timeFormat ?s2 1 (Some exactSink) ''svc'' ''started'' InfoLevel newYear2021)) =
      [''[I] 2021-01-01T00:00:00Z svc started'' @ [CHR 0x0A]]"
    using WriteEntry_line [OF o(2), of timeFormat exactSink "''svc''" "''started''" InfoLevel newYear2021]
    unfolding bc by auto
  have "\<not> noName (textHeap ?s2 1)" and "timeFmt (textHeap ?s2 1) = RFC3339"
    unfolding vc by simp_all
  with ve1 we wc show ?thesis
    unfolding e c by blast
qed

end
